theory Spec2Isabelle
  imports Main "HOL-Library.AList"
begin

section \<open>JavaScript values, errors and effects\<close>

text \<open>
  The program is JavaScript that runs in a browser: \<^verbatim>\<open>channel.js\<close> holds the WAMP
  \<^verbatim>\<open>Channel\<close> and, after it, the public \<^verbatim>\<open>WebRTC\<close> class with its internal
  \<^verbatim>\<open>WebRtcHandler\<close>. Every method is embedded as a function that takes the object it
  is called on (\<^verbatim>\<open>this\<close>) and returns the object as the call leaves it, the calls it
  made on its collaborators in the order it made them, and the exception that ended it,
  if one did. A private member \<^verbatim>\<open>x_\<close> of the source is the field \<open>x_'\<close> here.

  Values that only pass through (SDP descriptions, ICE servers, constraint values) are
  JSON values. A member that is \<^verbatim>\<open>null\<close> or \<^verbatim>\<open>undefined\<close> is \<open>None\<close>. References to
  objects of the browser (channels, DOM elements, media streams, peer connections,
  callback functions) are numbers.
\<close>

datatype json =
    JNull
  | JBool bool
  | JNum int
  | JStr string
  | JArr "json list"
  | JObj "(string \<times> json) list"

datatype js_error = TypeError | SyntaxError

type_synonym chan = nat
type_synonym element = nat
type_synonym stream = nat
type_synonym pc = nat
type_synonym callback = nat
type_synonym ref = nat
type_synonym session = nat

text \<open>
  \<^verbatim>\<open>JSON.parse\<close> and \<^verbatim>\<open>JSON.stringify\<close> belong to the runtime. A message text on the
  channel is represented by the value \<^verbatim>\<open>JSON.parse\<close> yields for it; \<open>Malformed\<close> stands
  for every text on which \<^verbatim>\<open>JSON.parse\<close> throws a \<^verbatim>\<open>SyntaxError\<close>.
\<close>

datatype wire = Malformed | Text json

definition JSON_parse :: "wire \<Rightarrow> js_error + json" where
  "JSON_parse message = (case message of Malformed \<Rightarrow> Inl SyntaxError | Text v \<Rightarrow> Inr v)"

definition JSON_stringify :: "json \<Rightarrow> wire" where
  "JSON_stringify v = Text v"

text \<open>
  Reading a member \<^verbatim>\<open>v.name\<close>: a \<^verbatim>\<open>TypeError\<close> on \<^verbatim>\<open>null\<close>, the member's value on
  an object that has it, and \<^verbatim>\<open>undefined\<close> (\<open>None\<close>) otherwise. The program reads only
  the members \<^verbatim>\<open>type\<close>, \<^verbatim>\<open>label\<close> and \<^verbatim>\<open>candidate\<close>, which no string, number, boolean
  or array has.
\<close>

fun own_member :: "json \<Rightarrow> string \<Rightarrow> json option" where
  "own_member (JObj members) name = map_of members name"
| "own_member v name = None"

definition get_member :: "json \<Rightarrow> string \<Rightarrow> js_error + json option" where
  "get_member v name = (if v = JNull then Inl TypeError else Inr (own_member v name))"

section \<open>Configuration, constraint objects and the browser\<close>

text \<open>
  The configuration object of \<^verbatim>\<open>webRtcDefaultConfig\<close>. It is read, never written, by
  the classes below.
\<close>

record webrtc_config =
  ice_servers :: "json list"
  p2p_channel :: "chan option"
  p2p_topic :: "string option"
  remote_video_display :: string
  local_video_display :: "string option"
  video_width :: int
  video_height :: int
  video_frame_rate :: int
  enable_audio :: bool
  onReady :: "callback option"
  onConnected :: "callback option"
  onTerminated :: "callback option"
  onError :: "callback option"

definition webRtcDefaultConfig :: webrtc_config where
  "webRtcDefaultConfig =
     \<lparr>ice_servers = [], p2p_channel = None, p2p_topic = None,
      remote_video_display = ''remote_video'', local_video_display = None,
      video_width = 320, video_height = 240, video_frame_rate = 10,
      enable_audio = True,
      onReady = None, onConnected = None, onTerminated = None, onError = None\<rparr>"

text \<open>
  An ordinary object whose members are written and enumerated by name, as a
  \<^verbatim>\<open>mandatory\<close> object is: its own members, in the order they were created, and its
  prototype. An object literal and \<^verbatim>\<open>JSON.parse\<close> build objects whose prototype is
  \<^verbatim>\<open>Object.prototype\<close>; an assignment to \<^verbatim>\<open>__proto__\<close> can replace it by \<^verbatim>\<open>null\<close> or by
  an object or array value.
\<close>

datatype prototype =
    Object_prototype
  | No_prototype
  | Object_value "(string \<times> json) list"
  | Array_value "json list"

record js_object =
  members :: "(string \<times> json) list"
  proto :: prototype

definition plain_object :: "(string \<times> json) list \<Rightarrow> js_object" where
  "plain_object ms = \<lparr>members = ms, proto = Object_prototype\<rparr>"

text \<open>The name of an array index: its decimal digits.\<close>

fun index_name :: "nat \<Rightarrow> string" where
  "index_name n =
     (if n < 10 then [''0123456789'' ! n]
      else index_name (n div 10) @ [''0123456789'' ! (n mod 10)])"

declare index_name.simps [simp del]

text \<open>
  The enumerable members an object finds on its prototype chain: those of an object
  value, the elements of an array value under their indices, none on \<^verbatim>\<open>Object.prototype\<close>
  and \<^verbatim>\<open>Array.prototype\<close>. \<^verbatim>\<open>for ... in\<close> enumerates the own members and then the inherited
  ones that no own member hides, and \<^verbatim>\<open>o[name]\<close> reads, for such a name, the value listed
  first.
\<close>

fun inherited :: "prototype \<Rightarrow> (string \<times> json) list" where
  "inherited Object_prototype = []"
| "inherited No_prototype = []"
| "inherited (Object_value ms) = ms"
| "inherited (Array_value xs) = zip (map index_name [0..<length xs]) xs"

definition enumerable :: "js_object \<Rightarrow> (string \<times> json) list" where
  "enumerable ob =
     members ob @ filter (\<lambda>(name, v). name \<notin> fst ` set (members ob)) (inherited (proto ob))"

text \<open>
  The assignment \<^verbatim>\<open>o[name] = v\<close>. An own member is overwritten in place. A name the
  object does not own is looked up on the prototype chain: every member found there is a
  writable data member, which makes the assignment create an own member, except
  \<^verbatim>\<open>__proto__\<close> of \<^verbatim>\<open>Object.prototype\<close>, whose setter is called instead; a name found
  nowhere is created too. The setter replaces the object's prototype when the value is an
  object, an array or \<^verbatim>\<open>null\<close> and ignores every other value. The chain ends at
  \<^verbatim>\<open>Object.prototype\<close> unless the prototype is \<^verbatim>\<open>null\<close>, and an object value that owns a
  member \<^verbatim>\<open>__proto__\<close> hides the setter. \<open>AList.update\<close> overwrites in place and appends
  what is new.
\<close>

fun inherits_setter :: "prototype \<Rightarrow> bool" where
  "inherits_setter Object_prototype = True"
| "inherits_setter No_prototype = False"
| "inherits_setter (Object_value ms) = (''__proto__'' \<notin> fst ` set ms)"
| "inherits_setter (Array_value xs) = True"

fun set_prototype :: "json \<Rightarrow> js_object \<Rightarrow> js_object" where
  "set_prototype JNull ob = ob\<lparr>proto := No_prototype\<rparr>"
| "set_prototype (JObj ms) ob = ob\<lparr>proto := Object_value ms\<rparr>"
| "set_prototype (JArr xs) ob = ob\<lparr>proto := Array_value xs\<rparr>"
| "set_prototype v ob = ob"

definition put :: "string \<Rightarrow> json \<Rightarrow> js_object \<Rightarrow> js_object" where
  "put name v ob =
     (if name = ''__proto__'' \<and> name \<notin> fst ` set (members ob) \<and> inherits_setter (proto ob)
      then set_prototype v ob
      else ob\<lparr>members := AList.update name v (members ob)\<rparr>)"

text \<open>
  A WebRTC constraint object \<^verbatim>\<open>{mandatory: {...}, optional: [...]}\<close>. Either member may
  be missing, as in the handler's own \<^verbatim>\<open>sdp_constraints_\<close> (no \<^verbatim>\<open>optional\<close>) and
  \<^verbatim>\<open>p2p_constraints_\<close> (no \<^verbatim>\<open>mandatory\<close>).

  \<^verbatim>\<open>mergeConstraints\<close> writes into the object it is given, so the constraint objects live
  in a store and the handler's fields hold their addresses.
\<close>

record constraints =
  mandatory :: "js_object option"
  optional :: "json list option"

type_synonym heap = "ref \<rightharpoonup> constraints"

record media_constraints =
  audio :: bool
  video :: constraints

text \<open>
  What the browser answers: the element of an id, whether calling \<^verbatim>\<open>getUserMedia\<close>
  throws (it is \<^verbatim>\<open>null\<close> on a browser \<^verbatim>\<open>compatible.js\<close> does not know), and the peer
  connection \<^verbatim>\<open>new RTCPeerConnection\<close> returns (\<open>None\<close> when it throws).
\<close>

record browser =
  getElementById :: "string \<Rightarrow> element option"
  getUserMedia_throws :: bool
  RTCPeerConnection_new :: "pc option"

text \<open>What a method does to the world outside its object, one entry per call it makes.\<close>

datatype event =
    Alert string
  | Invoke callback "json list"
  | Chan_subscribe chan "string option"
  | Chan_unsubscribe chan "string option"
  | Chan_publish chan "string option" wire
  | GetUserMedia media_constraints
  | New_RTCPeerConnection pc "json list" ref
  | PC_close pc
  | PC_addStream pc stream
  | PC_setRemoteDescription pc json
  | PC_createAnswer pc ref
  | PC_createOffer pc ref
  | PC_setLocalDescription pc json
  | PC_addIceCandidate pc "json option" "json option"
  | AttachMediaStream element "stream option"
  | DetachMediaStream element
  | Stream_stop stream
  | Uncaught js_error

type_synonym 's result = "'s \<times> event list \<times> js_error option"

text \<open>
  Statements in sequence: the second runs on the state the first left, unless the first
  threw; what was done before a throw stays done.
\<close>

definition then_do :: "('s \<Rightarrow> 's result) \<Rightarrow> ('s \<Rightarrow> 's result) \<Rightarrow> 's \<Rightarrow> 's result" where
  "then_do first second s =
     (case first s of
        (s1, es1, Some e) \<Rightarrow> (s1, es1, Some e)
      | (s1, es1, None) \<Rightarrow> (case second s1 of (s2, es2, r) \<Rightarrow> (s2, es1 @ es2, r)))"

fun block :: "('s \<Rightarrow> 's result) list \<Rightarrow> 's \<Rightarrow> 's result" where
  "block [] s = (s, [], None)"
| "block (stmt # stmts) s = then_do stmt (block stmts) s"

definition skip :: "'s \<Rightarrow> 's result" where
  "skip s = (s, [], None)"

definition emit :: "event list \<Rightarrow> 's \<Rightarrow> 's result" where
  "emit es s = (s, es, None)"

definition throw :: "js_error \<Rightarrow> 's \<Rightarrow> 's result" where
  "throw e s = (s, [], Some e)"

definition assign :: "('s \<Rightarrow> 's) \<Rightarrow> 's \<Rightarrow> 's result" where
  "assign f s = (f s, [], None)"

text \<open>
  Called when a WebRTC error is encountered: the error callback, if one is configured,
  otherwise an alert.
\<close>

definition webrtc_reportError :: "webrtc_config \<Rightarrow> string \<Rightarrow> event list" where
  "webrtc_reportError config message =
     (case onError config of
        Some f \<Rightarrow> [Invoke f [JStr message]]
      | None \<Rightarrow> [Alert message])"

section \<open>Channel\<close>

text \<open>
  The WAMP channel. \<open>session_'\<close> is the open Autobahn session or \<^verbatim>\<open>null\<close>. The calls a
  channel makes on its session are its effects.
\<close>

record Channel =
  username_' :: string
  user_session_id_' :: string
  session_' :: "session option"

datatype session_call =
    Session_close session
  | Session_subscribe session string callback
  | Session_unsubscribe session string
  | Session_publish session string json json
  | Session_call session "json list"

definition Channel :: "string \<Rightarrow> string \<Rightarrow> Channel" where
  "Channel username user_session_id =
     \<lparr>username_' = username, user_session_id_' = user_session_id, session_' = None\<rparr>"

definition Channel_close :: "Channel \<Rightarrow> Channel \<times> session_call list" where
  "Channel_close this =
     (case session_' this of
        None \<Rightarrow> (this, [])
      | Some s \<Rightarrow> (this\<lparr>session_' := None\<rparr>, [Session_close s]))"

definition isOpen :: "Channel \<Rightarrow> bool" where
  "isOpen this = (session_' this \<noteq> None)"

definition Channel_subscribe :: "Channel \<Rightarrow> string \<Rightarrow> callback \<Rightarrow> Channel \<times> session_call list" where
  "Channel_subscribe this topic event_handler =
     (case session_' this of
        None \<Rightarrow> (this, [])
      | Some s \<Rightarrow> (this, [Session_subscribe s topic event_handler]))"

definition Channel_unsubscribe :: "Channel \<Rightarrow> string \<Rightarrow> Channel \<times> session_call list" where
  "Channel_unsubscribe this topic =
     (case session_' this of
        None \<Rightarrow> (this, [])
      | Some s \<Rightarrow> (this, [Session_unsubscribe s topic]))"

text \<open>
  \<^verbatim>\<open>publish\<close> names its third parameter \<^verbatim>\<open>exlude_me\<close> and its body reads and assigns
  \<^verbatim>\<open>exclude_me\<close>, which is therefore a global variable of the page: the function takes
  the global's value (\<open>None\<close> while it is undefined) and returns it with the channel.
\<close>

definition Channel_publish ::
  "Channel \<Rightarrow> json option \<Rightarrow> string \<Rightarrow> json \<Rightarrow> json option
     \<Rightarrow> (Channel \<times> json option) \<times> session_call list" where
  "Channel_publish this exclude_me topic data exlude_me =
     (case session_' this of
        None \<Rightarrow> ((this, exclude_me), [])
      | Some s \<Rightarrow>
          (let exclude_me' = (case exclude_me of None \<Rightarrow> JBool True | Some v \<Rightarrow> v)
           in ((this, Some exclude_me'), [Session_publish s topic data exclude_me'])))"

text \<open>
  What \<^verbatim>\<open>call\<close> returns: the object literal whose \<^verbatim>\<open>then\<close> calls its callback at once
  with \<^verbatim>\<open>false\<close>, or whatever the session's own \<^verbatim>\<open>call\<close> returned.
\<close>

datatype continuation = Calls_back_with json | Of_session session "json list"

definition Channel_call :: "Channel \<Rightarrow> json list \<Rightarrow> continuation \<times> session_call list" where
  "Channel_call this arguments =
     (case session_' this of
        None \<Rightarrow> (Calls_back_with (JBool False), [])
      | Some s \<Rightarrow> (Of_session s arguments, [Session_call s arguments]))"

text \<open>
  \<^verbatim>\<open>c.then(callback)\<close>: the calls of \<open>callback\<close> made before \<^verbatim>\<open>then\<close> returns, with
  their arguments. The session's continuation calls back later, if at all.
\<close>

fun then_apply :: "continuation \<Rightarrow> callback \<Rightarrow> (callback \<times> json list) list" where
  "then_apply (Calls_back_with v) callback = [(callback, [v])]"
| "then_apply (Of_session s arguments) callback = []"

section \<open>WebRtcHandler\<close>

text \<open>
  The internal class. \<open>heap\<close> is the part of the store that holds the three constraint
  objects the constructor creates; \<open>sdp_constraints_'\<close>, \<open>p2p_constraints_'\<close> and
  \<open>offer_constraints_'\<close> are their addresses.
\<close>

record WebRtcHandler =
  webrtc_config_' :: webrtc_config
  p2p_channel_' :: "chan option"
  p2p_subscribed_' :: bool
  p2p_connection_' :: "pc option"
  remote_video_display_' :: "element option"
  local_video_display_' :: "element option"
  sdp_constraints_' :: ref
  p2p_config_' :: "json list"
  p2p_constraints_' :: ref
  offer_constraints_' :: ref
  media_constraints_' :: media_constraints
  do_call_' :: bool
  local_stream_' :: "stream option"
  heap :: heap

definition WebRtcHandler :: "webrtc_config \<Rightarrow> WebRtcHandler" where
  "WebRtcHandler webrtc_config =
     \<lparr>webrtc_config_' = webrtc_config,
      p2p_channel_' = p2p_channel webrtc_config,
      p2p_subscribed_' = False,
      p2p_connection_' = None,
      remote_video_display_' = None,
      local_video_display_' = None,
      sdp_constraints_' = 0,
      p2p_config_' = ice_servers webrtc_config,
      p2p_constraints_' = 1,
      offer_constraints_' = 2,
      media_constraints_' =
        \<lparr>audio = enable_audio webrtc_config,
         video =
           \<lparr>mandatory =
              Some (plain_object
                     [(''maxWidth'', JNum (video_width webrtc_config)),
                      (''maxHeight'', JNum (video_height webrtc_config)),
                      (''maxFrameRate'', JNum (video_frame_rate webrtc_config))]),
            optional = Some []\<rparr>\<rparr>,
      do_call_' = False,
      local_stream_' = None,
      heap =
        [0 \<mapsto> \<lparr>mandatory =
                Some (plain_object
                       [(''OfferToReceiveAudio'', JBool (enable_audio webrtc_config)),
                        (''OfferToReceiveVideo'', JBool True)]),
              optional = None\<rparr>,
         1 \<mapsto> \<lparr>mandatory = None,
              optional = Some [JObj [(''DtlsSrtpKeyAgreement'', JBool True)]]\<rparr>,
         2 \<mapsto> \<lparr>mandatory = Some (plain_object []), optional = Some []\<rparr>]\<rparr>"

text \<open>
  A method call on \<^verbatim>\<open>this.p2p_channel_\<close> or \<^verbatim>\<open>this.p2p_connection_\<close>: a \<^verbatim>\<open>TypeError\<close>
  when the member is \<^verbatim>\<open>null\<close>, before any argument is evaluated.
\<close>

definition on_channel :: "(chan \<Rightarrow> event list) \<Rightarrow> WebRtcHandler \<Rightarrow> WebRtcHandler result" where
  "on_channel calls this =
     (case p2p_channel_' this of
        None \<Rightarrow> throw TypeError this
      | Some c \<Rightarrow> emit (calls c) this)"

definition on_connection :: "(pc \<Rightarrow> event list) \<Rightarrow> WebRtcHandler \<Rightarrow> WebRtcHandler result" where
  "on_connection calls this =
     (case p2p_connection_' this of
        None \<Rightarrow> throw TypeError this
      | Some c \<Rightarrow> emit (calls c) this)"

text \<open>Sends a message over the P2P channel to the remote endpoint.\<close>

definition send :: "json \<Rightarrow> WebRtcHandler \<Rightarrow> WebRtcHandler result" where
  "send p2p_message this =
     (let message = JSON_stringify p2p_message
      in on_channel (\<lambda>c. [Chan_publish c (p2p_topic (webrtc_config_' this)) message]) this)"

text \<open>
  Merges two constraint objects. \<open>merged\<close> is the address of the first one. The loop
  \<^verbatim>\<open>for (var name in constraints_2.mandatory)\<close> assigns, for each name it enumerates in the
  second object's \<^verbatim>\<open>mandatory\<close>, the value read there to the same name in
  \<^verbatim>\<open>merged.mandatory\<close>. \<open>source\<close> holds the names with the values they had when the loop
  began. Nothing else is read under the loop: the second object can change only when
  both addresses are the same object, and then every assignment writes to a name the
  value just read under it, which leaves every later read and the prototype as they were
  (an enumerated \<^verbatim>\<open>__proto__\<close> is a data member, own or inherited, so the setter is not
  reached).
\<close>

fun for_in_mandatory ::
  "string list \<Rightarrow> (string \<times> json) list \<Rightarrow> ref \<Rightarrow> heap \<Rightarrow> heap \<times> js_error option" where
  "for_in_mandatory [] source merged H = (H, None)"
| "for_in_mandatory (name # names) source merged H =
     (case H merged of
        None \<Rightarrow> (H, Some TypeError)
      | Some m \<Rightarrow>
          (case mandatory m of
             None \<Rightarrow> (H, Some TypeError)
           | Some target \<Rightarrow>
               (case map_of source name of
                  None \<Rightarrow> for_in_mandatory names source merged H
                | Some v \<Rightarrow>
                    for_in_mandatory names source merged
                      (H(merged \<mapsto> m\<lparr>mandatory := Some (put name v target)\<rparr>)))))"

text \<open>
  After the loop, \<^verbatim>\<open>merged.optional.concat(constraints_2.optional)\<close> builds a new array and
  the statement drops it: only the read of \<^verbatim>\<open>merged.optional\<close> can be observed, by the
  \<^verbatim>\<open>TypeError\<close> it throws when that member is missing.
\<close>

definition mergeConstraints :: "ref \<Rightarrow> ref \<Rightarrow> heap \<Rightarrow> heap \<times> (js_error + ref)" where
  "mergeConstraints constraints_1 constraints_2 H =
     (let merged = constraints_1 in
      case H constraints_2 of
        None \<Rightarrow> (H, Inl TypeError)
      | Some c2 \<Rightarrow>
          (let source = (case mandatory c2 of None \<Rightarrow> [] | Some m2 \<Rightarrow> enumerable m2) in
           case for_in_mandatory (map fst source) source merged H of
             (H1, Some e) \<Rightarrow> (H1, Inl e)
           | (H1, None) \<Rightarrow>
               (case H1 merged of
                  None \<Rightarrow> (H1, Inl TypeError)
                | Some m \<Rightarrow>
                    (case optional m of
                       None \<Rightarrow> (H1, Inl TypeError)
                     | Some opt \<Rightarrow> (H1, Inr merged)))))"

text \<open>What the loop does to the object it assigns into, taken alone.\<close>

fun put_all :: "string list \<Rightarrow> (string \<times> json) list \<Rightarrow> js_object \<Rightarrow> js_object" where
  "put_all [] source target = target"
| "put_all (name # names) source target =
     (case map_of source name of
        None \<Rightarrow> put_all names source target
      | Some v \<Rightarrow> put_all names source (put name v target))"

text \<open>Enables the local media stream and makes it visible in the UI; and the reverse.\<close>

definition addLocalStream :: "WebRtcHandler \<Rightarrow> WebRtcHandler result" where
  "addLocalStream this =
     (case local_video_display_' this of
        Some el \<Rightarrow> emit [AttachMediaStream el (local_stream_' this)] this
      | None \<Rightarrow> skip this)"

definition removeLocalStream :: "WebRtcHandler \<Rightarrow> WebRtcHandler result" where
  "removeLocalStream this =
     (case local_video_display_' this of
        Some el \<Rightarrow> emit [DetachMediaStream el] this
      | None \<Rightarrow> skip this)"

text \<open>Terminates a WebRTC call.\<close>

definition doHangup :: "WebRtcHandler \<Rightarrow> WebRtcHandler result" where
  "doHangup =
     block
      [\<lambda>this. case p2p_connection_' this of
                None \<Rightarrow> skip this
              | Some c \<Rightarrow> emit [PC_close c] (this\<lparr>p2p_connection_' := None\<rparr>),
       \<lambda>this. if p2p_subscribed_' this
              then block
                    [on_channel (\<lambda>c. [Chan_unsubscribe c (p2p_topic (webrtc_config_' this))]),
                     assign (\<lambda>this. this\<lparr>p2p_subscribed_' := False\<rparr>)] this
              else skip this,
       \<lambda>this. case local_stream_' this of
                None \<Rightarrow> skip this
              | Some s \<Rightarrow> block [removeLocalStream, emit [Stream_stop s]] this,
       \<lambda>this. case onTerminated (webrtc_config_' this) of
                None \<Rightarrow> skip this
              | Some f \<Rightarrow> emit [Invoke f []] this]"

definition onRemoteHangup :: "WebRtcHandler \<Rightarrow> WebRtcHandler result" where
  "onRemoteHangup this = doHangup this"

text \<open>Initiates a WebRTC call by sending an offer over the P2P channel.\<close>

definition doCall :: "WebRtcHandler \<Rightarrow> WebRtcHandler result" where
  "doCall this =
     (case mergeConstraints (offer_constraints_' this) (sdp_constraints_' this) (heap this) of
        (H, Inl e) \<Rightarrow> throw e (this\<lparr>heap := H\<rparr>)
      | (H, Inr constraints) \<Rightarrow>
          on_connection (\<lambda>c. [PC_createOffer c constraints]) (this\<lparr>heap := H\<rparr>))"

text \<open>Updates the local session description and sends it to the remote endpoint.\<close>

definition setLocalAndSend :: "json \<Rightarrow> WebRtcHandler \<Rightarrow> WebRtcHandler result" where
  "setLocalAndSend session_description =
     block
      [on_connection (\<lambda>c. [PC_setLocalDescription c session_description]),
       send session_description]"

text \<open>Creates a WebRTC P2P connection.\<close>

definition createP2PConnection :: "browser \<Rightarrow> WebRtcHandler \<Rightarrow> WebRtcHandler result" where
  "createP2PConnection env this =
     (case RTCPeerConnection_new env of
        Some c \<Rightarrow>
          emit [New_RTCPeerConnection c (p2p_config_' this) (p2p_constraints_' this)]
            (this\<lparr>p2p_connection_' := Some c\<rparr>)
      | None \<Rightarrow>
          emit (webrtc_reportError (webrtc_config_' this) ''WebRTC P2P connection is not supported.'')
            (this\<lparr>p2p_connection_' := None\<rparr>))"

text \<open>Handles successful access to user media.\<close>

definition onUserMediaSuccess :: "browser \<Rightarrow> stream \<Rightarrow> WebRtcHandler \<Rightarrow> WebRtcHandler result" where
  "onUserMediaSuccess env stream =
     block
      [assign (\<lambda>this. this\<lparr>local_stream_' := Some stream\<rparr>),
       addLocalStream,
       createP2PConnection env,
       \<lambda>this. case p2p_connection_' this of
                None \<Rightarrow> skip this
              | Some c \<Rightarrow>
                  block
                   [emit [PC_addStream c stream],
                    \<lambda>this. if do_call_' this then doCall this else skip this,
                    \<lambda>this. case onReady (webrtc_config_' this) of
                             None \<Rightarrow> skip this
                           | Some f \<Rightarrow> emit [Invoke f []] this] this]"

text \<open>Handles a user media access error.\<close>

definition onUserMediaError :: "json \<Rightarrow> WebRtcHandler \<Rightarrow> WebRtcHandler result" where
  "onUserMediaError error this =
     emit (webrtc_reportError (webrtc_config_' this) ''Failed to get access to local media.'') this"

text \<open>
  Handles incoming P2P messages. The \<^verbatim>\<open>RTCSessionDescription\<close> and \<^verbatim>\<open>RTCIceCandidate\<close>
  built from the message are passed to the connection as the message and as the two
  members read from it.
\<close>

definition onChannelMessage :: "string option \<Rightarrow> wire \<Rightarrow> WebRtcHandler \<Rightarrow> WebRtcHandler result" where
  "onChannelMessage topic message this =
     (case JSON_parse message of
        Inl e \<Rightarrow> throw e this
      | Inr p2p_message \<Rightarrow>
          (case get_member p2p_message ''type'' of
             Inl e \<Rightarrow> throw e this
           | Inr type \<Rightarrow>
               if type = Some (JStr ''offer'') then
                 block
                  [on_connection (\<lambda>c. [PC_setRemoteDescription c p2p_message]),
                   on_connection (\<lambda>c. [PC_createAnswer c (sdp_constraints_' this)])] this
               else if type = Some (JStr ''answer'') then
                 on_connection (\<lambda>c. [PC_setRemoteDescription c p2p_message]) this
               else if type = Some (JStr ''candidate'') then
                 on_connection
                   (\<lambda>c. [PC_addIceCandidate c (own_member p2p_message ''label'')
                                             (own_member p2p_message ''candidate'')]) this
               else if type = Some (JStr ''bye'') then
                 onRemoteHangup this
               else skip this))"

text \<open>
  Initial method called to set up a WebRTC connection: looks the displays up, subscribes
  to the P2P channel and asks for the user's media. The \<^verbatim>\<open>try\<close> around
  \<^verbatim>\<open>getUserMedia\<close> reports what it catches.
\<close>

definition initialize :: "browser \<Rightarrow> WebRtcHandler \<Rightarrow> WebRtcHandler result" where
  "initialize env =
     block
      [assign (\<lambda>this. this\<lparr>remote_video_display_' :=
                              getElementById env (remote_video_display (webrtc_config_' this))\<rparr>),
       \<lambda>this. case local_video_display (webrtc_config_' this) of
                None \<Rightarrow> skip this
              | Some display \<Rightarrow> assign (\<lambda>this. this\<lparr>local_video_display_' := getElementById env display\<rparr>) this,
       \<lambda>this. on_channel (\<lambda>c. [Chan_subscribe c (p2p_topic (webrtc_config_' this))]) this,
       assign (\<lambda>this. this\<lparr>p2p_subscribed_' := True\<rparr>),
       \<lambda>this. if getUserMedia_throws env
              then emit (webrtc_reportError (webrtc_config_' this) ''getUserMedia() is not supported.'') this
              else emit [GetUserMedia (media_constraints_' this)] this]"

definition WebRtcHandler_listen :: "browser \<Rightarrow> WebRtcHandler \<Rightarrow> WebRtcHandler result" where
  "WebRtcHandler_listen env =
     block [assign (\<lambda>this. this\<lparr>do_call_' := False\<rparr>), initialize env]"

definition WebRtcHandler_call :: "browser \<Rightarrow> WebRtcHandler \<Rightarrow> WebRtcHandler result" where
  "WebRtcHandler_call env =
     block [assign (\<lambda>this. this\<lparr>do_call_' := True\<rparr>), initialize env]"

definition WebRtcHandler_hangup :: "WebRtcHandler \<Rightarrow> WebRtcHandler result" where
  "WebRtcHandler_hangup =
     block [send (JObj [(''type'', JStr ''bye'')]), doHangup]"

section \<open>WebRTC\<close>

datatype WebRtcState = INITIALIZED | CALLING | TERMINATED

text \<open>
  The public class. A constructor that reports an error returns before it sets either
  member, and \<^verbatim>\<open>new\<close> still yields the object: both members are then \<^verbatim>\<open>undefined\<close>.
\<close>

record WebRTC =
  webrtc_handler_' :: "WebRtcHandler option"
  state_' :: "WebRtcState option"

definition WebRTC :: "webrtc_config \<Rightarrow> WebRTC \<times> event list" where
  "WebRTC webrtc_config =
     (let this = \<lparr>webrtc_handler_' = None, state_' = None\<rparr> in
      if length (ice_servers webrtc_config) = 0 then
        (this, webrtc_reportError webrtc_config ''No ICE servers specified.'')
      else if p2p_channel webrtc_config = None \<or>
              (case p2p_topic webrtc_config of None \<Rightarrow> True | Some topic \<Rightarrow> length topic = 0) then
        (this, webrtc_reportError webrtc_config ''Invalid P2P specification.'')
      else
        (this\<lparr>webrtc_handler_' := Some (WebRtcHandler webrtc_config),
              state_' := Some INITIALIZED\<rparr>, []))"

text \<open>A call of a method of \<^verbatim>\<open>this.webrtc_handler_\<close>.\<close>

definition delegate :: "(WebRtcHandler \<Rightarrow> WebRtcHandler result) \<Rightarrow> WebRTC \<Rightarrow> WebRTC result" where
  "delegate method this =
     (case webrtc_handler_' this of
        None \<Rightarrow> throw TypeError this
      | Some h \<Rightarrow>
          (case method h of (h', es, r) \<Rightarrow> (this\<lparr>webrtc_handler_' := Some h'\<rparr>, es, r)))"

definition WebRTC_listen :: "browser \<Rightarrow> WebRTC \<Rightarrow> WebRTC result" where
  "WebRTC_listen env this =
     (if state_' this \<noteq> Some INITIALIZED then skip this
      else block
            [assign (\<lambda>this. this\<lparr>state_' := Some CALLING\<rparr>),
             delegate (WebRtcHandler_listen env)] this)"

definition WebRTC_call :: "browser \<Rightarrow> WebRTC \<Rightarrow> WebRTC result" where
  "WebRTC_call env this =
     (if state_' this \<noteq> Some INITIALIZED then skip this
      else block
            [assign (\<lambda>this. this\<lparr>state_' := Some CALLING\<rparr>),
             delegate (WebRtcHandler_call env)] this)"

definition WebRTC_hangup :: "WebRTC \<Rightarrow> WebRTC result" where
  "WebRTC_hangup this =
     (if state_' this \<noteq> Some CALLING then skip this
      else block
            [assign (\<lambda>this. this\<lparr>state_' := Some TERMINATED\<rparr>),
             delegate WebRtcHandler_hangup] this)"

section \<open>Calls and callbacks in sequence\<close>

text \<open>
  What can happen to a \<^verbatim>\<open>WebRTC\<close> object: the page calls one of its three methods, or
  the browser calls back one of the functions its handler has handed out (the channel
  with a message, \<^verbatim>\<open>getUserMedia\<close> with a stream or an error, \<^verbatim>\<open>createOffer\<close> and
  \<^verbatim>\<open>createAnswer\<close> with a session description). An object without a handler has handed
  out no function, so a callback finds nothing to call.
\<close>

datatype action =
    Listen
  | Call
  | Hangup
  | ChannelMessage "string option" wire
  | UserMediaSuccess stream
  | UserMediaError json
  | SessionDescription json

definition to_handler :: "(WebRtcHandler \<Rightarrow> WebRtcHandler result) \<Rightarrow> WebRTC \<Rightarrow> WebRTC result" where
  "to_handler callback this =
     (case webrtc_handler_' this of
        None \<Rightarrow> skip this
      | Some h \<Rightarrow>
          (case callback h of (h', es, r) \<Rightarrow> (this\<lparr>webrtc_handler_' := Some h'\<rparr>, es, r)))"

fun fire :: "browser \<Rightarrow> action \<Rightarrow> WebRTC \<Rightarrow> WebRTC result" where
  "fire env Listen = WebRTC_listen env"
| "fire env Call = WebRTC_call env"
| "fire env Hangup = WebRTC_hangup"
| "fire env (ChannelMessage topic message) = to_handler (onChannelMessage topic message)"
| "fire env (UserMediaSuccess stream) = to_handler (onUserMediaSuccess env stream)"
| "fire env (UserMediaError error) = to_handler (onUserMediaError error)"
| "fire env (SessionDescription session_description) = to_handler (setLocalAndSend session_description)"

text \<open>
  A run: each action on the object the one before left. An exception ends the action
  that threw it and is recorded as \<open>Uncaught\<close>; the next action still happens.
\<close>

fun run :: "browser \<Rightarrow> action list \<Rightarrow> WebRTC \<Rightarrow> WebRTC \<times> event list" where
  "run env [] this = (this, [])"
| "run env (a # as) this =
     (case fire env a this of
        (this1, es1, r) \<Rightarrow>
          (case run env as this1 of
             (this2, es2) \<Rightarrow>
               (this2, es1 @ (case r of None \<Rightarrow> [] | Some e \<Rightarrow> [Uncaught e]) @ es2)))"

text \<open>The same statement \<open>n\<close> times in a row.\<close>

fun repeat :: "nat \<Rightarrow> ('s \<Rightarrow> 's result) \<Rightarrow> 's \<Rightarrow> 's result" where
  "repeat 0 stmt = skip"
| "repeat (Suc n) stmt = then_do stmt (repeat n stmt)"

text \<open>The numbers of the source's \<^verbatim>\<open>WebRtcState\<close>; an object without a state has none.\<close>

fun WebRtcState_value :: "WebRtcState \<Rightarrow> nat" where
  "WebRtcState_value INITIALIZED = 1"
| "WebRtcState_value CALLING = 2"
| "WebRtcState_value TERMINATED = 3"

fun state_rank :: "WebRtcState option \<Rightarrow> nat" where
  "state_rank None = 0"
| "state_rank (Some s) = WebRtcState_value s"

text \<open>
  What the constructor establishes and every method keeps: the two members are set
  together, and a handler has the channel the constructor checked for.
\<close>

definition WebRTC_inv :: "WebRTC \<Rightarrow> bool" where
  "WebRTC_inv this =
     (case webrtc_handler_' this of
        None \<Rightarrow> state_' this = None
      | Some h \<Rightarrow> state_' this \<noteq> None \<and> p2p_channel_' h \<noteq> None)"

text \<open>Kinds of effects.\<close>

fun is_publish :: "event \<Rightarrow> bool" where
  "is_publish (Chan_publish c topic message) = True"
| "is_publish e = False"

fun is_unsubscribe :: "event \<Rightarrow> bool" where
  "is_unsubscribe (Chan_unsubscribe c topic) = True"
| "is_unsubscribe e = False"

fun is_close :: "event \<Rightarrow> bool" where
  "is_close (PC_close c) = True"
| "is_close e = False"

fun is_stop :: "event \<Rightarrow> bool" where
  "is_stop (Stream_stop s) = True"
| "is_stop e = False"

fun is_invoke :: "event \<Rightarrow> bool" where
  "is_invoke (Invoke f arguments) = True"
| "is_invoke e = False"

section \<open>A configuration, a browser and a call in progress\<close>

definition example_config :: webrtc_config where
  "example_config =
     webRtcDefaultConfig
       \<lparr>ice_servers := [JObj [(''url'', JStr ''stun:stun.example.org'')]],
        p2p_channel := Some 1,
        p2p_topic := Some ''room'',
        local_video_display := Some ''local_video'',
        onReady := Some 2,
        onTerminated := Some 3,
        onError := Some 4\<rparr>"

definition example_browser :: browser where
  "example_browser =
     \<lparr>getElementById =
        (\<lambda>display. if display = ''remote_video'' then Some 10
                   else if display = ''local_video'' then Some 11 else None),
      getUserMedia_throws = False,
      RTCPeerConnection_new = Some 20\<rparr>"

text \<open>A callee that has called \<^verbatim>\<open>listen()\<close> and waits for its media.\<close>

definition listening :: WebRTC where
  "listening = fst (run example_browser [Listen] (fst (WebRTC example_config)))"

text \<open>A caller whose media have arrived: peer connection open, offer requested.\<close>

definition in_call :: WebRTC where
  "in_call = fst (run example_browser [Call, UserMediaSuccess 30] (fst (WebRTC example_config)))"

text \<open>The handlers of the two, reached by the handler's own methods.\<close>

definition listening_handler :: WebRtcHandler where
  "listening_handler = fst (WebRtcHandler_listen example_browser (WebRtcHandler example_config))"

definition in_call_handler :: WebRtcHandler where
  "in_call_handler =
     fst (block [WebRtcHandler_call example_browser, onUserMediaSuccess example_browser 30]
            (WebRtcHandler example_config))"

text \<open>
  Constraint objects in a store. The first two share the member
  \<^verbatim>\<open>OfferToReceiveAudio\<close>, each has a member the other lacks, and each has an \<^verbatim>\<open>optional\<close>
  entry. The third is what \<^verbatim>\<open>JSON.parse\<close> makes of
  \<^verbatim>\<open>{"mandatory": {"__proto__": true, "OfferToReceiveVideo": false}}\<close>: its \<^verbatim>\<open>mandatory\<close>
  owns a member called \<^verbatim>\<open>__proto__\<close>. The fourth has a \<^verbatim>\<open>mandatory\<close> and no \<^verbatim>\<open>optional\<close>.
\<close>

definition example_heap :: heap where
  "example_heap =
     [0 \<mapsto> \<lparr>mandatory =
             Some (plain_object
                    [(''OfferToReceiveAudio'', JBool False), (''IceRestart'', JBool True)]),
           optional = Some [JObj [(''DtlsSrtpKeyAgreement'', JBool True)]]\<rparr>,
      1 \<mapsto> \<lparr>mandatory =
             Some (plain_object
                    [(''OfferToReceiveAudio'', JBool True), (''OfferToReceiveVideo'', JBool True)]),
           optional = Some [JObj [(''RtpDataChannels'', JBool True)]]\<rparr>,
      2 \<mapsto> \<lparr>mandatory =
             Some (plain_object
                    [(''__proto__'', JBool True), (''OfferToReceiveVideo'', JBool False)]),
           optional = None\<rparr>,
      3 \<mapsto> \<lparr>mandatory = Some (plain_object [(''IceRestart'', JBool True)]),
           optional = None\<rparr>]"

section \<open>Statements and teardown\<close>

lemmas stmt_defs = then_do_def skip_def emit_def throw_def assign_def

text \<open>
  \<^verbatim>\<open>doHangup\<close> in one equation. The unsubscribe throws only on a handler that is
  subscribed without a channel, which no constructed handler is.
\<close>

lemma doHangup_result:
  "doHangup h =
    (h\<lparr>p2p_connection_' := None,
       p2p_subscribed_' := (p2p_subscribed_' h \<and> p2p_channel_' h = None)\<rparr>,
     (case p2p_connection_' h of None \<Rightarrow> [] | Some c \<Rightarrow> [PC_close c]) @
     (if p2p_subscribed_' h
      then (case p2p_channel_' h of
              None \<Rightarrow> []
            | Some c \<Rightarrow> [Chan_unsubscribe c (p2p_topic (webrtc_config_' h))])
      else []) @
     (if p2p_subscribed_' h \<and> p2p_channel_' h = None then []
      else (case local_stream_' h of
              None \<Rightarrow> []
            | Some s \<Rightarrow>
                (case local_video_display_' h of
                   None \<Rightarrow> []
                 | Some el \<Rightarrow> [DetachMediaStream el]) @ [Stream_stop s]) @
           (case onTerminated (webrtc_config_' h) of
              None \<Rightarrow> []
            | Some f \<Rightarrow> [Invoke f []])),
     if p2p_subscribed_' h \<and> p2p_channel_' h = None then Some TypeError else None)"
  by (simp add: doHangup_def stmt_defs on_channel_def removeLocalStream_def split: option.splits)

section \<open>The channel while its session is not open\<close>

text \<open>
  C9. On a channel whose \<open>session_'\<close> is \<^verbatim>\<open>null\<close>, \<^verbatim>\<open>subscribe\<close>, \<^verbatim>\<open>unsubscribe\<close> and
  \<^verbatim>\<open>publish\<close> return at their guard: the channel (and the global \<^verbatim>\<open>exclude_me\<close>) is as
  before and no call reaches a session. \<^verbatim>\<open>call\<close> makes no call on a session either and
  returns the continuation whose \<^verbatim>\<open>then\<close> calls the callback at once, with \<^verbatim>\<open>false\<close>.
  None of the four methods has a statement before its guard, so none can throw there.
\<close>

theorem closed_channel_is_inert:
  assumes "session_' this = None"
  shows "Channel_subscribe this topic event_handler = (this, []) \<and>
         Channel_unsubscribe this topic = (this, []) \<and>
         Channel_publish this exclude_me topic data exlude_me = ((this, exclude_me), []) \<and>
         Channel_call this arguments = (Calls_back_with (JBool False), []) \<and>
         then_apply (fst (Channel_call this arguments)) callback = [(callback, [JBool False])]"
  using assms
  by (simp add: Channel_subscribe_def Channel_unsubscribe_def Channel_publish_def Channel_call_def)

theorem closed_channel_is_inert_witness:
  "session_' (Channel ''alice'' ''s1'') = None \<and>
   \<not> isOpen (Channel ''alice'' ''s1'') \<and>
   Channel_subscribe (Channel ''alice'' ''s1'') ''room'' 7 = (Channel ''alice'' ''s1'', []) \<and>
   Channel_unsubscribe (Channel ''alice'' ''s1'') ''room'' = (Channel ''alice'' ''s1'', []) \<and>
   Channel_publish (Channel ''alice'' ''s1'') None ''room'' (JStr ''hello'') None
     = ((Channel ''alice'' ''s1'', None), []) \<and>
   then_apply (fst (Channel_call (Channel ''alice'' ''s1'') [JStr ''rpc:ping''])) 8
     = [(8, [JBool False])]"
proof -
  have closed: "session_' (Channel ''alice'' ''s1'') = None"
    by (simp add: Channel_def)
  from closed_channel_is_inert
         [OF closed, of "''room''" 7 None "JStr ''hello''" None "[JStr ''rpc:ping'']" 8]
  show ?thesis using closed by (simp add: isOpen_def)
qed

section \<open>Sequencing and the state machine\<close>

lemma then_do_end: "then_do stmt (block []) = stmt"
  by (rule ext) (simp add: then_do_def split: prod.splits option.splits)

lemma then_do_assign: "then_do (assign f) stmt s = stmt (f s)"
  by (simp add: then_do_def assign_def split: prod.splits)

lemma delegate_state: "state_' (fst (delegate method this)) = state_' this"
  by (simp add: delegate_def throw_def split: option.splits prod.splits)

lemma to_handler_state: "state_' (fst (to_handler callback this)) = state_' this"
  by (simp add: to_handler_def skip_def split: option.splits prod.splits)

lemma WebRTC_listen_eq:
  "WebRTC_listen env this =
     (if state_' this \<noteq> Some INITIALIZED then (this, [], None)
      else delegate (WebRtcHandler_listen env) (this\<lparr>state_' := Some CALLING\<rparr>))"
  by (simp add: WebRTC_listen_def skip_def then_do_end then_do_assign)

lemma WebRTC_call_eq:
  "WebRTC_call env this =
     (if state_' this \<noteq> Some INITIALIZED then (this, [], None)
      else delegate (WebRtcHandler_call env) (this\<lparr>state_' := Some CALLING\<rparr>))"
  by (simp add: WebRTC_call_def skip_def then_do_end then_do_assign)

lemma WebRTC_hangup_eq:
  "WebRTC_hangup this =
     (if state_' this \<noteq> Some CALLING then (this, [], None)
      else delegate WebRtcHandler_hangup (this\<lparr>state_' := Some TERMINATED\<rparr>))"
  by (simp add: WebRTC_hangup_def skip_def then_do_end then_do_assign)

lemma fire_state:
  "state_' (fst (fire env a this)) =
     (case a of
        Listen \<Rightarrow> if state_' this = Some INITIALIZED then Some CALLING else state_' this
      | Call \<Rightarrow> if state_' this = Some INITIALIZED then Some CALLING else state_' this
      | Hangup \<Rightarrow> if state_' this = Some CALLING then Some TERMINATED else state_' this
      | _ \<Rightarrow> state_' this)"
  by (cases a) (simp_all add: WebRTC_listen_eq WebRTC_call_eq WebRTC_hangup_eq delegate_state to_handler_state)

lemma fire_rank: "state_rank (state_' this) \<le> state_rank (state_' (fst (fire env a this)))"
  by (simp add: fire_state split: action.splits)

lemma run_Cons_state: "state_' (fst (run env (a # as) this)) = state_' (fst (run env as (fst (fire env a this))))"
  by (simp split: prod.splits)

lemma run_rank: "state_rank (state_' this) \<le> state_rank (state_' (fst (run env as this)))"
proof (induction as arbitrary: this)
  case Nil
  show ?case by simp
next
  case (Cons a as)
  have "state_rank (state_' this) \<le> state_rank (state_' (fst (fire env a this)))"
    by (rule fire_rank)
  also have "\<dots> \<le> state_rank (state_' (fst (run env as (fst (fire env a this)))))"
    by (rule Cons.IH)
  finally show ?case by (simp only: run_Cons_state)
qed

lemma run_terminated:
  "state_' this = Some TERMINATED \<Longrightarrow> state_' (fst (run env as this)) = Some TERMINATED"
proof (induction as arbitrary: this)
  case Nil
  then show ?case by simp
next
  case (Cons a as)
  from Cons.prems have "state_' (fst (fire env a this)) = Some TERMINATED"
    by (simp add: fire_state split: action.splits)
  then show ?case by (simp only: run_Cons_state Cons.IH)
qed

lemma initialize_no_throw:
  "p2p_channel_' h \<noteq> None \<Longrightarrow> snd (snd (initialize env h)) = None"
  by (auto simp: initialize_def stmt_defs on_channel_def split: option.splits)

lemma WebRtcHandler_listen_no_throw:
  "p2p_channel_' h \<noteq> None \<Longrightarrow> snd (snd (WebRtcHandler_listen env h)) = None"
  by (simp add: WebRtcHandler_listen_def then_do_end then_do_assign initialize_no_throw)

lemma WebRtcHandler_call_no_throw:
  "p2p_channel_' h \<noteq> None \<Longrightarrow> snd (snd (WebRtcHandler_call env h)) = None"
  by (simp add: WebRtcHandler_call_def then_do_end then_do_assign initialize_no_throw)

lemma delegate_Some:
  "webrtc_handler_' this = Some h \<Longrightarrow>
   delegate method this =
     (this\<lparr>webrtc_handler_' := Some (fst (method h))\<rparr>, fst (snd (method h)), snd (snd (method h)))"
  by (simp add: delegate_def split: prod.splits)


lemma WebRtcHandler_hangup_result:
  "WebRtcHandler_hangup h =
     (case p2p_channel_' h of
        None \<Rightarrow> (h, [], Some TypeError)
      | Some c \<Rightarrow>
          (fst (doHangup h),
           Chan_publish c (p2p_topic (webrtc_config_' h)) (Text (JObj [(''type'', JStr ''bye'')]))
             # fst (snd (doHangup h)),
           None))"
  by (simp add: WebRtcHandler_hangup_def send_def JSON_stringify_def on_channel_def stmt_defs
        doHangup_result split: option.splits)

lemma doHangup_publishes_nothing: "filter is_publish (fst (snd (doHangup h))) = []"
  by (cases "p2p_connection_' h"; cases "p2p_channel_' h"; cases "local_stream_' h";
      cases "local_video_display_' h"; cases "onTerminated (webrtc_config_' h)";
      cases "p2p_subscribed_' h"; simp add: doHangup_result)

section \<open>Hanging up\<close>

text \<open>
  C1. On every instance the constructor can produce and the methods can reach
  (\<open>WebRTC_inv\<close>), \<^verbatim>\<open>hangup()\<close> called in state CALLING calls \<^verbatim>\<open>publish\<close> on the
  configured channel exactly once, with the configured topic and the message
  \<^verbatim>\<open>{"type":"bye"}\<close>, leaves the state TERMINATED and does not throw. Called in any other
  state (INITIALIZED, TERMINATED, or no state at all) it returns the instance as it was
  and does nothing. So a message is published if and only if the state was CALLING, and
  the state changes if and only if it was CALLING. To publish is to call \<^verbatim>\<open>publish\<close> on
  the channel of the configuration; what a channel does with the call is the channel's.
\<close>

theorem hangup_publishes_bye_iff_calling:
  assumes "WebRTC_inv this"
  shows "(state_' this = Some CALLING \<longrightarrow>
            (\<exists>h c. webrtc_handler_' this = Some h \<and> p2p_channel_' h = Some c \<and>
                   filter is_publish (fst (snd (WebRTC_hangup this))) =
                     [Chan_publish c (p2p_topic (webrtc_config_' h))
                        (Text (JObj [(''type'', JStr ''bye'')]))] \<and>
                   state_' (fst (WebRTC_hangup this)) = Some TERMINATED \<and>
                   snd (snd (WebRTC_hangup this)) = None)) \<and>
         (state_' this \<noteq> Some CALLING \<longrightarrow> WebRTC_hangup this = (this, [], None)) \<and>
         (filter is_publish (fst (snd (WebRTC_hangup this))) \<noteq> []) = (state_' this = Some CALLING) \<and>
         (state_' (fst (WebRTC_hangup this)) \<noteq> state_' this) = (state_' this = Some CALLING)"
proof (cases "state_' this = Some CALLING")
  case True
  with assms obtain h c where h: "webrtc_handler_' this = Some h" and c: "p2p_channel_' h = Some c"
    by (auto simp: WebRTC_inv_def split: option.splits)
  have "WebRTC_hangup this =
          (this\<lparr>state_' := Some TERMINATED, webrtc_handler_' := Some (fst (doHangup h))\<rparr>,
           Chan_publish c (p2p_topic (webrtc_config_' h)) (Text (JObj [(''type'', JStr ''bye'')]))
             # fst (snd (doHangup h)),
           None)"
    using True h c
    by (simp add: WebRTC_hangup_eq delegate_Some WebRtcHandler_hangup_result)
  with True h c show ?thesis
    by (simp add: doHangup_publishes_nothing)
next
  case False
  then show ?thesis by (simp add: WebRTC_hangup_eq)
qed

lemma doHangup_channel: "p2p_channel_' (fst (doHangup h)) = p2p_channel_' h"
  by (simp add: doHangup_result)

lemma doCall_channel: "p2p_channel_' (fst (doCall h)) = p2p_channel_' h"
  by (simp add: doCall_def on_connection_def stmt_defs split: prod.splits sum.splits option.splits)

lemma initialize_channel: "p2p_channel_' (fst (initialize env h)) = p2p_channel_' h"
  by (simp add: initialize_def on_channel_def stmt_defs split: option.splits)

lemma WebRtcHandler_listen_channel: "p2p_channel_' (fst (WebRtcHandler_listen env h)) = p2p_channel_' h"
  by (simp add: WebRtcHandler_listen_def then_do_end then_do_assign initialize_channel)

lemma WebRtcHandler_call_channel: "p2p_channel_' (fst (WebRtcHandler_call env h)) = p2p_channel_' h"
  by (simp add: WebRtcHandler_call_def then_do_end then_do_assign initialize_channel)

lemma WebRtcHandler_hangup_channel: "p2p_channel_' (fst (WebRtcHandler_hangup h)) = p2p_channel_' h"
  by (simp add: WebRtcHandler_hangup_result doHangup_channel split: option.splits)

lemma onChannelMessage_channel: "p2p_channel_' (fst (onChannelMessage topic message h)) = p2p_channel_' h"
  by (simp add: onChannelMessage_def onRemoteHangup_def doHangup_channel on_connection_def stmt_defs
        split: sum.splits option.splits)

lemma onUserMediaError_channel: "p2p_channel_' (fst (onUserMediaError error h)) = p2p_channel_' h"
  by (simp add: onUserMediaError_def emit_def)

lemma setLocalAndSend_channel: "p2p_channel_' (fst (setLocalAndSend d h)) = p2p_channel_' h"
  by (simp add: setLocalAndSend_def send_def on_connection_def on_channel_def stmt_defs split: option.splits)

lemma onUserMediaSuccess_channel: "p2p_channel_' (fst (onUserMediaSuccess env stream h)) = p2p_channel_' h"
  apply (simp add: onUserMediaSuccess_def addLocalStream_def createP2PConnection_def stmt_defs
        split: option.splits prod.splits)
  apply (auto simp: doCall_def on_connection_def stmt_defs split: prod.splits sum.splits option.splits if_splits)
  done


lemmas eval_defs =
  stmt_defs Let_def WebRTC_def WebRtcHandler_def webRtcDefaultConfig_def
  example_config_def example_browser_def
  WebRTC_listen_def WebRTC_call_def WebRTC_hangup_def delegate_def to_handler_def
  WebRtcHandler_listen_def WebRtcHandler_call_def WebRtcHandler_hangup_def
  initialize_def on_channel_def on_connection_def send_def JSON_stringify_def JSON_parse_def
  get_member_def onUserMediaSuccess_def onUserMediaError_def addLocalStream_def
  removeLocalStream_def createP2PConnection_def doCall_def mergeConstraints_def
  setLocalAndSend_def onChannelMessage_def onRemoteHangup_def doHangup_def
  webrtc_reportError_def plain_object_def enumerable_def put_def

lemma WebRTC_inv_constructed: "WebRTC_inv (fst (WebRTC config))"
  by (simp add: WebRTC_def WebRTC_inv_def WebRtcHandler_def Let_def)

lemma delegate_inv:
  assumes "WebRTC_inv this" and "\<And>h. p2p_channel_' (fst (method h)) = p2p_channel_' h"
  shows "WebRTC_inv (fst (delegate method this))"
  using assms by (simp add: WebRTC_inv_def delegate_def throw_def case_prod_unfold split: option.splits)

lemma to_handler_inv:
  assumes "WebRTC_inv this" and "\<And>h. p2p_channel_' (fst (callback h)) = p2p_channel_' h"
  shows "WebRTC_inv (fst (to_handler callback this))"
  using assms by (simp add: WebRTC_inv_def to_handler_def skip_def case_prod_unfold split: option.splits)

lemma state_update_inv: "WebRTC_inv this \<Longrightarrow> state_' this \<noteq> None \<Longrightarrow> WebRTC_inv (this\<lparr>state_' := Some s\<rparr>)"
  by (simp add: WebRTC_inv_def split: option.splits)

lemma fire_inv: "WebRTC_inv this \<Longrightarrow> WebRTC_inv (fst (fire env a this))"
proof (cases a)
  case Listen
  assume "WebRTC_inv this"
  then show ?thesis using Listen
    by (simp add: WebRTC_listen_eq delegate_inv state_update_inv WebRtcHandler_listen_channel)
next
  case Call
  assume "WebRTC_inv this"
  then show ?thesis using Call
    by (simp add: WebRTC_call_eq delegate_inv state_update_inv WebRtcHandler_call_channel)
next
  case Hangup
  assume "WebRTC_inv this"
  then show ?thesis using Hangup
    by (simp add: WebRTC_hangup_eq delegate_inv state_update_inv WebRtcHandler_hangup_channel)
next
  case (ChannelMessage topic message)
  assume "WebRTC_inv this"
  then show ?thesis using ChannelMessage
    by (simp add: to_handler_inv onChannelMessage_channel)
next
  case (UserMediaSuccess stream)
  assume "WebRTC_inv this"
  then show ?thesis using UserMediaSuccess
    by (simp add: to_handler_inv onUserMediaSuccess_channel)
next
  case (UserMediaError error)
  assume "WebRTC_inv this"
  then show ?thesis using UserMediaError
    by (simp add: to_handler_inv onUserMediaError_channel)
next
  case (SessionDescription d)
  assume "WebRTC_inv this"
  then show ?thesis using SessionDescription
    by (simp add: to_handler_inv setLocalAndSend_channel)
qed

lemma run_Cons_fst: "fst (run env (a # as) this) = fst (run env as (fst (fire env a this)))"
  by (simp split: prod.splits)

lemma run_inv: "WebRTC_inv this \<Longrightarrow> WebRTC_inv (fst (run env as this))"
proof (induction as arbitrary: this)
  case Nil
  then show ?case by simp
next
  case (Cons a as)
  then show ?case by (simp only: run_Cons_fst fire_inv)
qed

lemma reachable_inv: "WebRTC_inv (fst (run env as (fst (WebRTC config))))"
  by (rule run_inv) (rule WebRTC_inv_constructed)

theorem hangup_publishes_bye_iff_calling_witness:
  "WebRTC_inv in_call \<and> state_' in_call = Some CALLING \<and>
   filter is_publish (fst (snd (WebRTC_hangup in_call))) =
     [Chan_publish 1 (Some ''room'') (Text (JObj [(''type'', JStr ''bye'')]))] \<and>
   state_' (fst (WebRTC_hangup in_call)) = Some TERMINATED \<and>
   WebRTC_hangup (fst (WebRTC_hangup in_call)) = (fst (WebRTC_hangup in_call), [], None) \<and>
   WebRTC_hangup (fst (WebRTC example_config)) = (fst (WebRTC example_config), [], None)"
proof -
  have inv: "WebRTC_inv in_call"
    unfolding in_call_def by (rule reachable_inv)
  have calling: "state_' in_call = Some CALLING"
    by (simp add: in_call_def eval_defs)
  have inv': "WebRTC_inv (fst (WebRTC_hangup in_call))"
    using fire_inv [OF inv, of example_browser Hangup] by simp
  have inv0: "WebRTC_inv (fst (WebRTC example_config))"
    by (rule WebRTC_inv_constructed)
  have fresh: "state_' (fst (WebRTC example_config)) = Some INITIALIZED"
    by (simp add: eval_defs)
  have chan: "\<And>h. webrtc_handler_' in_call = Some h \<Longrightarrow>
                p2p_channel_' h = Some 1 \<and> p2p_topic (webrtc_config_' h) = Some ''room''"
    by (auto simp add: in_call_def eval_defs)
  from hangup_publishes_bye_iff_calling [OF inv] hangup_publishes_bye_iff_calling [OF inv']
       hangup_publishes_bye_iff_calling [OF inv0] inv calling fresh chan
  show ?thesis by auto
qed

section \<open>Listening and calling\<close>

lemma second_start_ignored:
  assumes "state_' this = Some INITIALIZED"
  shows "WebRTC_call env (fst (WebRTC_listen env this)) = (fst (WebRTC_listen env this), [], None)"
    and "WebRTC_listen env (fst (WebRTC_call env this)) = (fst (WebRTC_call env this), [], None)"
    and "WebRTC_listen env (fst (WebRTC_listen env this)) = (fst (WebRTC_listen env this), [], None)"
    and "WebRTC_call env (fst (WebRTC_call env this)) = (fst (WebRTC_call env this), [], None)"
proof -
  from assms fire_state [of env Listen this]
  have listened: "state_' (fst (WebRTC_listen env this)) = Some CALLING"
    by simp
  from assms fire_state [of env Call this]
  have called: "state_' (fst (WebRTC_call env this)) = Some CALLING"
    by simp
  from listened
  show "WebRTC_call env (fst (WebRTC_listen env this)) = (fst (WebRTC_listen env this), [], None)"
    and "WebRTC_listen env (fst (WebRTC_listen env this)) = (fst (WebRTC_listen env this), [], None)"
    by (simp_all add: WebRTC_call_eq [of env "fst (WebRTC_listen env this)"]
          WebRTC_listen_eq [of env "fst (WebRTC_listen env this)"])
  from called
  show "WebRTC_listen env (fst (WebRTC_call env this)) = (fst (WebRTC_call env this), [], None)"
    and "WebRTC_call env (fst (WebRTC_call env this)) = (fst (WebRTC_call env this), [], None)"
    by (simp_all add: WebRTC_call_eq [of env "fst (WebRTC_call env this)"]
          WebRTC_listen_eq [of env "fst (WebRTC_call env this)"])
qed

text \<open>
  C2. On every instance the constructor can produce and the methods can reach,
  \<^verbatim>\<open>listen()\<close> and \<^verbatim>\<open>call()\<close> called in state INITIALIZED set the state to CALLING and
  run the handler's \<^verbatim>\<open>listen\<close> or \<^verbatim>\<open>call\<close>, whose effects are theirs, without throwing;
  called in any other state they return the instance as it was and do nothing, so of
  \<^verbatim>\<open>listen()\<close> and \<^verbatim>\<open>call()\<close> the one called second is ignored. Over
  every sequence of method calls and callbacks the state never moves back: it becomes
  CALLING only by \<^verbatim>\<open>listen()\<close> or \<^verbatim>\<open>call()\<close> from INITIALIZED, it becomes TERMINATED only
  by \<^verbatim>\<open>hangup()\<close> from CALLING, and once TERMINATED it stays TERMINATED.
\<close>

theorem listen_call_only_from_initialized:
  assumes "WebRTC_inv this"
  shows "(state_' this = Some INITIALIZED \<longrightarrow>
            (\<exists>h. webrtc_handler_' this = Some h \<and>
                 WebRTC_listen env this =
                   (this\<lparr>state_' := Some CALLING,
                          webrtc_handler_' := Some (fst (WebRtcHandler_listen env h))\<rparr>,
                    fst (snd (WebRtcHandler_listen env h)), None) \<and>
                 WebRTC_call env this =
                   (this\<lparr>state_' := Some CALLING,
                          webrtc_handler_' := Some (fst (WebRtcHandler_call env h))\<rparr>,
                    fst (snd (WebRtcHandler_call env h)), None))) \<and>
         (state_' this \<noteq> Some INITIALIZED \<longrightarrow>
            WebRTC_listen env this = (this, [], None) \<and> WebRTC_call env this = (this, [], None)) \<and>
         (state_' this = Some INITIALIZED \<longrightarrow>
            WebRTC_call env (fst (WebRTC_listen env this)) = (fst (WebRTC_listen env this), [], None) \<and>
            WebRTC_listen env (fst (WebRTC_call env this)) = (fst (WebRTC_call env this), [], None)) \<and>
         state_rank (state_' this) \<le> state_rank (state_' (fst (run env as this))) \<and>
         (state_' (fst (fire env a this)) = Some CALLING \<and> state_' this \<noteq> Some CALLING \<longrightarrow>
            (a = Listen \<or> a = Call) \<and> state_' this = Some INITIALIZED) \<and>
         (state_' (fst (fire env a this)) = Some TERMINATED \<and> state_' this \<noteq> Some TERMINATED \<longrightarrow>
            a = Hangup \<and> state_' this = Some CALLING) \<and>
         (state_' this = Some TERMINATED \<longrightarrow> state_' (fst (run env as this)) = Some TERMINATED)"
proof -
  have initialized: "state_' this = Some INITIALIZED \<longrightarrow>
            (\<exists>h. webrtc_handler_' this = Some h \<and>
                 WebRTC_listen env this =
                   (this\<lparr>state_' := Some CALLING,
                          webrtc_handler_' := Some (fst (WebRtcHandler_listen env h))\<rparr>,
                    fst (snd (WebRtcHandler_listen env h)), None) \<and>
                 WebRTC_call env this =
                   (this\<lparr>state_' := Some CALLING,
                          webrtc_handler_' := Some (fst (WebRtcHandler_call env h))\<rparr>,
                    fst (snd (WebRtcHandler_call env h)), None))"
  proof
    assume init: "state_' this = Some INITIALIZED"
    with assms obtain h where h: "webrtc_handler_' this = Some h" and c: "p2p_channel_' h \<noteq> None"
      by (auto simp: WebRTC_inv_def split: option.splits)
    from init h c show "\<exists>h. webrtc_handler_' this = Some h \<and>
                 WebRTC_listen env this =
                   (this\<lparr>state_' := Some CALLING,
                          webrtc_handler_' := Some (fst (WebRtcHandler_listen env h))\<rparr>,
                    fst (snd (WebRtcHandler_listen env h)), None) \<and>
                 WebRTC_call env this =
                   (this\<lparr>state_' := Some CALLING,
                          webrtc_handler_' := Some (fst (WebRtcHandler_call env h))\<rparr>,
                    fst (snd (WebRtcHandler_call env h)), None)"
      by (simp add: WebRTC_listen_eq WebRTC_call_eq delegate_Some
            WebRtcHandler_listen_no_throw WebRtcHandler_call_no_throw)
  qed
  have other: "state_' this \<noteq> Some INITIALIZED \<longrightarrow>
            WebRTC_listen env this = (this, [], None) \<and> WebRTC_call env this = (this, [], None)"
    by (simp add: WebRTC_listen_eq WebRTC_call_eq)
  have to_calling: "state_' (fst (fire env a this)) = Some CALLING \<and> state_' this \<noteq> Some CALLING \<longrightarrow>
            (a = Listen \<or> a = Call) \<and> state_' this = Some INITIALIZED"
    by (simp add: fire_state split: action.splits if_splits)
  have to_terminated: "state_' (fst (fire env a this)) = Some TERMINATED \<and> state_' this \<noteq> Some TERMINATED \<longrightarrow>
            a = Hangup \<and> state_' this = Some CALLING"
    by (simp add: fire_state split: action.splits if_splits)
  have second: "state_' this = Some INITIALIZED \<longrightarrow>
            WebRTC_call env (fst (WebRTC_listen env this)) = (fst (WebRTC_listen env this), [], None) \<and>
            WebRTC_listen env (fst (WebRTC_call env this)) = (fst (WebRTC_call env this), [], None)"
    by (simp add: second_start_ignored)
  from initialized other second to_calling to_terminated
       run_rank [of this env as] run_terminated [of this env as]
  show ?thesis by blast
qed

theorem listen_call_only_from_initialized_witness:
  "WebRTC_inv (fst (WebRTC example_config)) \<and>
   state_' (fst (WebRTC example_config)) = Some INITIALIZED \<and>
   state_' (fst (WebRTC_listen example_browser (fst (WebRTC example_config)))) = Some CALLING \<and>
   state_' (fst (WebRTC_call example_browser (fst (WebRTC example_config)))) = Some CALLING \<and>
   fst (snd (WebRTC_listen example_browser (fst (WebRTC example_config)))) =
     fst (snd (WebRtcHandler_listen example_browser (WebRtcHandler example_config))) \<and>
   WebRTC_inv listening \<and> state_' listening = Some CALLING \<and>
   WebRTC_listen example_browser listening = (listening, [], None) \<and>
   WebRTC_call example_browser listening = (listening, [], None) \<and>
   state_' (fst (run example_browser [Hangup, Call, Listen] listening)) = Some TERMINATED"
proof -
  let ?w0 = "fst (WebRTC example_config)"
  let ?w2 = "fst (fire example_browser Hangup listening)"
  have inv0: "WebRTC_inv ?w0"
    by (rule WebRTC_inv_constructed)
  have fresh: "state_' ?w0 = Some INITIALIZED"
    and handler: "webrtc_handler_' ?w0 = Some (WebRtcHandler example_config)"
    by (simp_all add: WebRTC_def example_config_def webRtcDefaultConfig_def)
  have inv1: "WebRTC_inv listening"
    unfolding listening_def by (rule reachable_inv)
  have calling: "state_' listening = Some CALLING"
    unfolding listening_def by (simp only: run_Cons_fst run.simps(1) fst_conv fire_state fresh) simp
  have inv2: "WebRTC_inv ?w2"
    by (rule fire_inv [OF inv1])
  have hung: "state_' ?w2 = Some TERMINATED"
    by (simp only: fire_state calling) simp
  have split_run: "fst (run example_browser [Hangup, Call, Listen] listening) =
          fst (run example_browser [Call, Listen] ?w2)"
    by (simp only: run_Cons_fst)
  note at_start = listen_call_only_from_initialized [OF inv0, of example_browser "[]" Listen]
  note at_calling = listen_call_only_from_initialized [OF inv1, of example_browser "[]" Listen]
  note at_end = listen_call_only_from_initialized [OF inv2, of example_browser "[Call, Listen]" Listen]
  from at_start fresh handler
  have started:
    "WebRTC_listen example_browser ?w0 =
       (?w0\<lparr>state_' := Some CALLING,
             webrtc_handler_' := Some (fst (WebRtcHandler_listen example_browser (WebRtcHandler example_config)))\<rparr>,
        fst (snd (WebRtcHandler_listen example_browser (WebRtcHandler example_config))), None)"
    "WebRTC_call example_browser ?w0 =
       (?w0\<lparr>state_' := Some CALLING,
             webrtc_handler_' := Some (fst (WebRtcHandler_call example_browser (WebRtcHandler example_config)))\<rparr>,
        fst (snd (WebRtcHandler_call example_browser (WebRtcHandler example_config))), None)"
    by fastforce+
  from at_calling calling
  have ignored: "WebRTC_listen example_browser listening = (listening, [], None)"
                "WebRTC_call example_browser listening = (listening, [], None)"
    by simp_all
  from at_end hung
  have stays: "state_' (fst (run example_browser [Call, Listen] ?w2)) = Some TERMINATED"
    by blast
  show ?thesis
    by (simp only: started ignored stays split_run inv0 inv1 fresh calling fst_conv snd_conv) simp
qed

section \<open>Construction without ICE servers\<close>

lemma fire_unusable:
  "webrtc_handler_' this = None \<Longrightarrow> state_' this = None \<Longrightarrow> fire env a this = (this, [], None)"
  by (cases a) (simp_all add: WebRTC_listen_eq WebRTC_call_eq WebRTC_hangup_eq to_handler_def skip_def)

lemma run_unusable:
  "webrtc_handler_' this = None \<Longrightarrow> state_' this = None \<Longrightarrow> run env as this = (this, [])"
  by (induction as) (simp_all add: fire_unusable)

text \<open>
  C7. A configuration whose \<^verbatim>\<open>ice_servers\<close> is empty makes the constructor report
  exactly \<^verbatim>\<open>"No ICE servers specified."\<close>, to \<^verbatim>\<open>onError\<close> when it is configured and by an
  alert otherwise, and return an instance with neither state nor handler. On that
  instance \<^verbatim>\<open>listen()\<close>, \<^verbatim>\<open>call()\<close> and \<^verbatim>\<open>hangup()\<close> return at once, and no sequence of
  method calls and callbacks changes it, has any effect (so no callback of the
  configuration is called) or throws.
\<close>

theorem no_ice_servers_no_instance:
  assumes "ice_servers config = []"
  shows "WebRTC config =
           (\<lparr>webrtc_handler_' = None, state_' = None\<rparr>,
            case onError config of
              Some f \<Rightarrow> [Invoke f [JStr ''No ICE servers specified.'']]
            | None \<Rightarrow> [Alert ''No ICE servers specified.'']) \<and>
         WebRTC_listen env (fst (WebRTC config)) = (fst (WebRTC config), [], None) \<and>
         WebRTC_call env (fst (WebRTC config)) = (fst (WebRTC config), [], None) \<and>
         WebRTC_hangup (fst (WebRTC config)) = (fst (WebRTC config), [], None) \<and>
         run env as (fst (WebRTC config)) = (fst (WebRTC config), [])"
proof -
  from assms have made: "WebRTC config =
           (\<lparr>webrtc_handler_' = None, state_' = None\<rparr>,
            case onError config of
              Some f \<Rightarrow> [Invoke f [JStr ''No ICE servers specified.'']]
            | None \<Rightarrow> [Alert ''No ICE servers specified.''])"
    by (simp add: WebRTC_def webrtc_reportError_def split: option.splits)
  then have none: "webrtc_handler_' (fst (WebRTC config)) = None" "state_' (fst (WebRTC config)) = None"
    by simp_all
  from none have "WebRTC_listen env (fst (WebRTC config)) = (fst (WebRTC config), [], None)"
    "WebRTC_call env (fst (WebRTC config)) = (fst (WebRTC config), [], None)"
    "WebRTC_hangup (fst (WebRTC config)) = (fst (WebRTC config), [], None)"
    by (simp_all add: WebRTC_listen_eq WebRTC_call_eq WebRTC_hangup_eq)
  with made run_unusable [OF none] show ?thesis by simp
qed

theorem no_ice_servers_no_instance_witness:
  "ice_servers webRtcDefaultConfig = [] \<and>
   WebRTC webRtcDefaultConfig =
     (\<lparr>webrtc_handler_' = None, state_' = None\<rparr>, [Alert ''No ICE servers specified.'']) \<and>
   WebRTC (webRtcDefaultConfig\<lparr>onError := Some 4\<rparr>) =
     (\<lparr>webrtc_handler_' = None, state_' = None\<rparr>, [Invoke 4 [JStr ''No ICE servers specified.'']]) \<and>
   run example_browser
     [Listen, UserMediaSuccess 30, Call, ChannelMessage (Some ''room'') (Text (JObj [(''type'', JStr ''bye'')])), Hangup]
     (fst (WebRTC webRtcDefaultConfig)) = (\<lparr>webrtc_handler_' = None, state_' = None\<rparr>, [])"
proof -
  have empty: "ice_servers webRtcDefaultConfig = []"
              "ice_servers (webRtcDefaultConfig\<lparr>onError := Some 4\<rparr>) = []"
    by (simp_all add: webRtcDefaultConfig_def)
  have policy: "onError webRtcDefaultConfig = None"
    by (simp add: webRtcDefaultConfig_def)
  note plain = no_ice_servers_no_instance [OF empty(1), of example_browser
         "[Listen, UserMediaSuccess 30, Call, ChannelMessage (Some ''room'') (Text (JObj [(''type'', JStr ''bye'')])), Hangup]"]
  note with_callback = no_ice_servers_no_instance [OF empty(2), of example_browser "[]"]
  from plain policy have made: "WebRTC webRtcDefaultConfig =
     (\<lparr>webrtc_handler_' = None, state_' = None\<rparr>, [Alert ''No ICE servers specified.''])"
    by simp
  from with_callback have made': "WebRTC (webRtcDefaultConfig\<lparr>onError := Some 4\<rparr>) =
     (\<lparr>webrtc_handler_' = None, state_' = None\<rparr>, [Invoke 4 [JStr ''No ICE servers specified.'']])"
    by simp
  from plain have inert: "run example_browser
     [Listen, UserMediaSuccess 30, Call, ChannelMessage (Some ''room'') (Text (JObj [(''type'', JStr ''bye'')])), Hangup]
     (fst (WebRTC webRtcDefaultConfig)) = (fst (WebRTC webRtcDefaultConfig), [])"
    by blast
  show ?thesis
    by (simp only: empty(1) made' inert) (simp only: made fst_conv simp_thms)
qed

section \<open>A Bye from the remote side\<close>

text \<open>
  C8. A message whose \<^verbatim>\<open>type\<close> is \<^verbatim>\<open>"bye"\<close> makes \<^verbatim>\<open>onChannelMessage\<close> do exactly what
  \<^verbatim>\<open>doHangup\<close> does, with no local \<^verbatim>\<open>hangup()\<close>: afterwards the handler has no peer
  connection and is not subscribed, the connection it had was closed, the topic it was
  subscribed to was unsubscribed and the local stream it had was stopped. The callback
  runs on the handler alone: the instance's \<open>state_'\<close> is what it was, so it stays
  CALLING when it was CALLING.
\<close>

theorem remote_bye_tears_down_keeps_state:
  assumes "webrtc_handler_' this = Some h" and "p2p_channel_' h = Some ch"
    and "JSON_parse message = Inr v" and "get_member v ''type'' = Inr (Some (JStr ''bye''))"
  shows "onChannelMessage topic message h = doHangup h \<and>
         fire env (ChannelMessage topic message) this =
           (this\<lparr>webrtc_handler_' := Some (fst (doHangup h))\<rparr>, fst (snd (doHangup h)), None) \<and>
         state_' (fst (fire env (ChannelMessage topic message) this)) = state_' this \<and>
         p2p_connection_' (fst (doHangup h)) = None \<and>
         \<not> p2p_subscribed_' (fst (doHangup h)) \<and>
         (case p2p_connection_' h of
            None \<Rightarrow> True
          | Some c \<Rightarrow> PC_close c \<in> set (fst (snd (doHangup h)))) \<and>
         (if p2p_subscribed_' h
          then Chan_unsubscribe ch (p2p_topic (webrtc_config_' h)) \<in> set (fst (snd (doHangup h)))
          else True) \<and>
         (case local_stream_' h of
            None \<Rightarrow> True
          | Some s \<Rightarrow> Stream_stop s \<in> set (fst (snd (doHangup h))))"
proof -
  from assms(3,4) have same: "onChannelMessage topic message h = doHangup h"
    by (simp add: onChannelMessage_def onRemoteHangup_def)
  from assms(2) have ok: "snd (snd (doHangup h)) = None"
    by (simp add: doHangup_result)
  from assms(1) same ok
  have fired: "fire env (ChannelMessage topic message) this =
           (this\<lparr>webrtc_handler_' := Some (fst (doHangup h))\<rparr>, fst (snd (doHangup h)), None)"
    by (simp add: to_handler_def case_prod_unfold prod_eq_iff)
  have closed: "case p2p_connection_' h of
            None \<Rightarrow> True
          | Some c \<Rightarrow> PC_close c \<in> set (fst (snd (doHangup h)))"
    by (cases "p2p_connection_' h"; cases "local_stream_' h"; cases "local_video_display_' h";
        cases "onTerminated (webrtc_config_' h)"; cases "p2p_subscribed_' h";
        simp add: doHangup_result)
  have unsubscribed: "if p2p_subscribed_' h
          then Chan_unsubscribe ch (p2p_topic (webrtc_config_' h)) \<in> set (fst (snd (doHangup h)))
          else True"
    using assms(2)
    by (cases "p2p_connection_' h"; cases "local_stream_' h"; cases "local_video_display_' h";
        cases "onTerminated (webrtc_config_' h)"; cases "p2p_subscribed_' h";
        simp add: doHangup_result)
  have stopped: "case local_stream_' h of
            None \<Rightarrow> True
          | Some s \<Rightarrow> Stream_stop s \<in> set (fst (snd (doHangup h)))"
    using assms(2)
    by (cases "p2p_connection_' h"; cases "local_stream_' h"; cases "local_video_display_' h";
        cases "onTerminated (webrtc_config_' h)"; cases "p2p_subscribed_' h";
        simp add: doHangup_result)
  from assms(2) have cleared: "p2p_connection_' (fst (doHangup h)) = None"
    "\<not> p2p_subscribed_' (fst (doHangup h))"
    by (simp_all add: doHangup_result)
  from same fired closed unsubscribed stopped cleared show ?thesis
    by (simp only: fst_conv) simp
qed


lemma in_call_handler_fields:
  "p2p_channel_' in_call_handler = Some 1"
  "p2p_connection_' in_call_handler = Some 20"
  "p2p_subscribed_' in_call_handler"
  "local_stream_' in_call_handler = Some 30"
  "local_video_display_' in_call_handler = Some 11"
  "onTerminated (webrtc_config_' in_call_handler) = Some 3"
  "p2p_topic (webrtc_config_' in_call_handler) = Some ''room''"
  by (simp_all add: in_call_handler_def eval_defs)

lemma in_call_fields:
  "webrtc_handler_' in_call = Some in_call_handler"
  "state_' in_call = Some CALLING"
  by (simp_all add: in_call_def in_call_handler_def eval_defs)

theorem remote_bye_tears_down_keeps_state_witness:
  "state_' in_call = Some CALLING \<and>
   fst (snd (fire example_browser
               (ChannelMessage (Some ''room'') (Text (JObj [(''type'', JStr ''bye'')]))) in_call)) =
     [PC_close 20, Chan_unsubscribe 1 (Some ''room''), DetachMediaStream 11, Stream_stop 30,
      Invoke 3 []] \<and>
   state_' (fst (fire example_browser
               (ChannelMessage (Some ''room'') (Text (JObj [(''type'', JStr ''bye'')]))) in_call)) =
     Some CALLING \<and>
   p2p_connection_' (fst (doHangup in_call_handler)) = None \<and>
   \<not> p2p_subscribed_' (fst (doHangup in_call_handler))"
proof -
  have parsed: "JSON_parse (Text (JObj [(''type'', JStr ''bye'')])) = Inr (JObj [(''type'', JStr ''bye'')])"
    by (simp add: JSON_parse_def)
  have tag: "get_member (JObj [(''type'', JStr ''bye'')]) ''type'' = Inr (Some (JStr ''bye''))"
    by (simp add: get_member_def)
  note bye = remote_bye_tears_down_keeps_state
    [OF in_call_fields(1) in_call_handler_fields(1) parsed tag, of "Some ''room''" example_browser]
  have events: "fst (snd (doHangup in_call_handler)) =
     [PC_close 20, Chan_unsubscribe 1 (Some ''room''), DetachMediaStream 11, Stream_stop 30,
      Invoke 3 []]"
    by (simp add: doHangup_result in_call_handler_fields)
  from bye have fired: "fire example_browser
               (ChannelMessage (Some ''room'') (Text (JObj [(''type'', JStr ''bye'')]))) in_call =
           (in_call\<lparr>webrtc_handler_' := Some (fst (doHangup in_call_handler))\<rparr>,
            fst (snd (doHangup in_call_handler)), None)"
    by blast
  from bye have cleared: "p2p_connection_' (fst (doHangup in_call_handler)) = None"
    "\<not> p2p_subscribed_' (fst (doHangup in_call_handler))"
    by blast+
  show ?thesis
    by (simp only: fired cleared events fst_conv snd_conv) (simp add: in_call_fields(2))
qed

section \<open>Hanging up more than once\<close>

lemma doHangup_torn_down:
  assumes "p2p_connection_' h = None" and "\<not> p2p_subscribed_' h"
  shows "fst (doHangup h) = h" and "snd (snd (doHangup h)) = None"
    and "filter is_close (fst (snd (doHangup h))) = []"
    and "filter is_unsubscribe (fst (snd (doHangup h))) = []"
  using assms
  by (cases "local_stream_' h"; cases "local_video_display_' h";
      cases "onTerminated (webrtc_config_' h)"; simp add: doHangup_result)+

lemma doHangup_first:
  assumes "p2p_channel_' h \<noteq> None"
  shows "p2p_connection_' (fst (doHangup h)) = None" and "\<not> p2p_subscribed_' (fst (doHangup h))"
    and "snd (snd (doHangup h)) = None"
    and "length (filter is_close (fst (snd (doHangup h)))) \<le> 1"
    and "length (filter is_unsubscribe (fst (snd (doHangup h)))) \<le> 1"
  using assms
  by (cases "p2p_connection_' h"; cases "local_stream_' h"; cases "local_video_display_' h";
      cases "onTerminated (webrtc_config_' h)"; cases "p2p_subscribed_' h";
      auto simp add: doHangup_result)+

lemma doHangup_invokes:
  assumes "p2p_channel_' h \<noteq> None"
  shows "filter is_invoke (fst (snd (doHangup h))) =
           (case onTerminated (webrtc_config_' h) of None \<Rightarrow> [] | Some f \<Rightarrow> [Invoke f []])"
  using assms
  by (cases "p2p_connection_' h"; cases "local_stream_' h"; cases "local_video_display_' h";
      cases "onTerminated (webrtc_config_' h)"; cases "p2p_subscribed_' h";
      auto simp add: doHangup_result)

lemma doHangup_config: "webrtc_config_' (fst (doHangup h)) = webrtc_config_' h"
  by (simp add: doHangup_result)

lemma then_do_results:
  "first s = (s1, es1, None) \<Longrightarrow> second s1 = (s2, es2, r) \<Longrightarrow>
   then_do first second s = (s2, es1 @ es2, r)"
  by (simp add: then_do_def)

lemma repeat_doHangup_torn_down:
  assumes "p2p_connection_' h = None" and "\<not> p2p_subscribed_' h"
  shows "repeat n doHangup h = (h, concat (replicate n (fst (snd (doHangup h)))), None)"
proof (induction n)
  case 0
  show ?case by (simp add: skip_def)
next
  case (Suc n)
  from assms have "doHangup h = (h, fst (snd (doHangup h)), None)"
    by (simp add: prod_eq_iff doHangup_torn_down)
  from then_do_results [where first = doHangup and second = "repeat n doHangup" and s = h,
         OF this Suc.IH]
  show ?case
    by simp
qed

lemma filter_concat_replicate:
  "filter P (concat (replicate n xs)) = concat (replicate n (filter P xs))"
  by (induction n) simp_all

lemma concat_replicate_single: "concat (replicate n [x]) = replicate n x"
  by (induction n) simp_all

lemma repeat_doHangup:
  assumes "p2p_channel_' h \<noteq> None"
  shows "repeat (Suc n) doHangup h =
           (fst (doHangup h),
            fst (snd (doHangup h)) @ concat (replicate n (fst (snd (doHangup (fst (doHangup h)))))),
            None)"
proof -
  from assms have once: "doHangup h = (fst (doHangup h), fst (snd (doHangup h)), None)"
    by (simp add: prod_eq_iff doHangup_first)
  from assms have "repeat n doHangup (fst (doHangup h)) =
          (fst (doHangup h), concat (replicate n (fst (snd (doHangup (fst (doHangup h)))))), None)"
    by (intro repeat_doHangup_torn_down doHangup_first)
  from then_do_results [where first = doHangup and second = "repeat n doHangup" and s = h,
         OF once this]
  show ?thesis
    by simp
qed

text \<open>
  C3, as the code has it. However often \<^verbatim>\<open>doHangup()\<close> is called in a row, \<open>n \<ge> 1\<close> times,
  the handler is left as one call leaves it, nothing throws, and the peer connection is
  closed and the topic unsubscribed exactly as by one call, each at most once. The
  \<^verbatim>\<open>onTerminated\<close> callback, when one is configured, is called once by each call of
  \<^verbatim>\<open>doHangup()\<close>, so \<open>n\<close> times.
\<close>

theorem repeated_doHangup_closes_once_notifies_each_time:
  assumes "0 < n" and "p2p_channel_' h \<noteq> None"
  shows "fst (repeat n doHangup h) = fst (doHangup h) \<and>
         snd (snd (repeat n doHangup h)) = None \<and>
         filter is_close (fst (snd (repeat n doHangup h))) = filter is_close (fst (snd (doHangup h))) \<and>
         length (filter is_close (fst (snd (doHangup h)))) \<le> 1 \<and>
         filter is_unsubscribe (fst (snd (repeat n doHangup h))) =
           filter is_unsubscribe (fst (snd (doHangup h))) \<and>
         length (filter is_unsubscribe (fst (snd (doHangup h)))) \<le> 1 \<and>
         filter is_invoke (fst (snd (repeat n doHangup h))) =
           (case onTerminated (webrtc_config_' h) of
              None \<Rightarrow> []
            | Some f \<Rightarrow> replicate n (Invoke f []))"
proof -
  from assms(1) obtain m where n: "n = Suc m"
    by (cases n) simp_all
  let ?h1 = "fst (doHangup h)"
  have channel1: "p2p_channel_' ?h1 \<noteq> None"
    using assms(2) by (simp add: doHangup_channel)
  have down: "p2p_connection_' ?h1 = None" "\<not> p2p_subscribed_' ?h1"
    using assms(2) by (rule doHangup_first)+
  have later_close: "filter is_close (fst (snd (doHangup ?h1))) = []"
    and later_unsubscribe: "filter is_unsubscribe (fst (snd (doHangup ?h1))) = []"
    using down by (rule doHangup_torn_down)+
  have later_invoke: "filter is_invoke (fst (snd (doHangup ?h1))) =
           (case onTerminated (webrtc_config_' h) of None \<Rightarrow> [] | Some f \<Rightarrow> [Invoke f []])"
    using doHangup_invokes [OF channel1] by (simp add: doHangup_config)
  have all: "repeat n doHangup h =
           (?h1, fst (snd (doHangup h)) @ concat (replicate m (fst (snd (doHangup ?h1)))), None)"
    unfolding n using assms(2) by (rule repeat_doHangup)
  then have events: "fst (snd (repeat n doHangup h)) =
           fst (snd (doHangup h)) @ concat (replicate m (fst (snd (doHangup ?h1))))"
    and state: "fst (repeat n doHangup h) = fst (doHangup h)" "snd (snd (repeat n doHangup h)) = None"
    by simp_all
  have invoked: "filter is_invoke (fst (snd (repeat n doHangup h))) =
           (case onTerminated (webrtc_config_' h) of
              None \<Rightarrow> []
            | Some f \<Rightarrow> replicate n (Invoke f []))"
    unfolding events
    by (cases "onTerminated (webrtc_config_' h)")
       (simp_all add: filter_concat_replicate later_invoke doHangup_invokes [OF assms(2)]
          concat_replicate_single n)
  have closed: "filter is_close (fst (snd (repeat n doHangup h))) = filter is_close (fst (snd (doHangup h)))"
    unfolding events by (simp add: filter_concat_replicate later_close)
  have unsubscribed: "filter is_unsubscribe (fst (snd (repeat n doHangup h))) =
           filter is_unsubscribe (fst (snd (doHangup h)))"
    unfolding events by (simp add: filter_concat_replicate later_unsubscribe)
  from state closed unsubscribed invoked doHangup_first(4,5) [OF assms(2)]
  show ?thesis by blast
qed

lemma in_call_handler_doHangup:
  "fst (snd (doHangup in_call_handler)) =
     [PC_close 20, Chan_unsubscribe 1 (Some ''room''), DetachMediaStream 11, Stream_stop 30,
      Invoke 3 []]"
  "fst (snd (doHangup (fst (doHangup in_call_handler)))) =
     [DetachMediaStream 11, Stream_stop 30, Invoke 3 []]"
  by (simp_all add: doHangup_result in_call_handler_fields)

theorem repeated_doHangup_closes_once_notifies_each_time_witness:
  "0 < (3::nat) \<and> p2p_channel_' in_call_handler \<noteq> None \<and>
   fst (repeat 3 doHangup in_call_handler) = fst (doHangup in_call_handler) \<and>
   filter is_close (fst (snd (repeat 3 doHangup in_call_handler))) = [PC_close 20] \<and>
   filter is_unsubscribe (fst (snd (repeat 3 doHangup in_call_handler))) =
     [Chan_unsubscribe 1 (Some ''room'')] \<and>
   filter is_invoke (fst (snd (repeat 3 doHangup in_call_handler))) =
     [Invoke 3 [], Invoke 3 [], Invoke 3 []]"
proof -
  have positive: "0 < (3::nat)" by simp
  have channel: "p2p_channel_' in_call_handler \<noteq> None"
    by (simp add: in_call_handler_fields)
  note thrice = repeated_doHangup_closes_once_notifies_each_time [OF positive channel]
  from thrice have "fst (repeat 3 doHangup in_call_handler) = fst (doHangup in_call_handler)"
    and "filter is_close (fst (snd (repeat 3 doHangup in_call_handler))) =
           filter is_close (fst (snd (doHangup in_call_handler)))"
    and "filter is_unsubscribe (fst (snd (repeat 3 doHangup in_call_handler))) =
           filter is_unsubscribe (fst (snd (doHangup in_call_handler)))"
    and "filter is_invoke (fst (snd (repeat 3 doHangup in_call_handler))) =
           (case onTerminated (webrtc_config_' in_call_handler) of
              None \<Rightarrow> []
            | Some f \<Rightarrow> replicate 3 (Invoke f []))"
    by blast+
  then show ?thesis
    by (simp add: in_call_handler_doHangup in_call_handler_fields numeral_3_eq_3)
qed

theorem doHangup_twice_counterexample:
  "fst (snd (repeat 1 doHangup in_call_handler)) =
     [PC_close 20, Chan_unsubscribe 1 (Some ''room''), DetachMediaStream 11, Stream_stop 30,
      Invoke 3 []] \<and>
   fst (snd (repeat 2 doHangup in_call_handler)) =
     [PC_close 20, Chan_unsubscribe 1 (Some ''room''), DetachMediaStream 11, Stream_stop 30,
      Invoke 3 [],
      DetachMediaStream 11, Stream_stop 30, Invoke 3 []] \<and>
   length (filter is_stop (fst (snd (repeat 2 doHangup in_call_handler)))) = 2 \<and>
   length (filter is_invoke (fst (snd (repeat 2 doHangup in_call_handler)))) = 2"
proof -
  have channel: "p2p_channel_' in_call_handler \<noteq> None"
    by (simp add: in_call_handler_fields)
  have once: "repeat 1 doHangup in_call_handler = repeat (Suc 0) doHangup in_call_handler"
    and twice: "repeat 2 doHangup in_call_handler = repeat (Suc (Suc 0)) doHangup in_call_handler"
    by (simp_all only: One_nat_def numeral_2_eq_2)
  show ?thesis
    unfolding once twice repeat_doHangup [OF channel]
    by (simp add: in_call_handler_doHangup)
qed

section \<open>Messages the handler cannot use\<close>

lemma listening_handler_fields:
  "p2p_connection_' listening_handler = None"
  "p2p_subscribed_' listening_handler"
  "p2p_channel_' listening_handler = Some 1"
  by (simp_all add: listening_handler_def eval_defs)

lemma message_without_link:
  assumes "p2p_connection_' h = None" and "JSON_parse message = Inr v" and "v \<noteq> JNull"
    and "own_member v ''type'' = Some (JStr ''offer'') \<or>
         own_member v ''type'' = Some (JStr ''answer'') \<or>
         own_member v ''type'' = Some (JStr ''candidate'')"
  shows "onChannelMessage topic message h = (h, [], Some TypeError)"
  using assms
  by (auto simp add: onChannelMessage_def get_member_def on_connection_def stmt_defs)

text \<open>
  C4. The callee of the example has called \<^verbatim>\<open>listen()\<close>: it is subscribed and, its media
  not yet there, has no peer connection. An Answer and a Candidate that arrive now change
  nothing in the handler and reach no collaborator, but neither is dropped quietly:
  \<^verbatim>\<open>this.p2p_connection_\<close> is \<^verbatim>\<open>null\<close>, and the call of \<^verbatim>\<open>setRemoteDescription\<close> or
  \<^verbatim>\<open>addIceCandidate\<close> on it ends \<^verbatim>\<open>onChannelMessage\<close> with a \<^verbatim>\<open>TypeError\<close>.
\<close>

theorem answer_and_candidate_without_link_throw:
  "p2p_subscribed_' listening_handler \<and> p2p_connection_' listening_handler = None \<and>
   onChannelMessage (Some ''room'')
     (Text (JObj [(''type'', JStr ''answer''), (''sdp'', JStr ''v=0'')])) listening_handler =
     (listening_handler, [], Some TypeError) \<and>
   onChannelMessage (Some ''room'')
     (Text (JObj [(''type'', JStr ''candidate''), (''label'', JNum 0), (''id'', JStr ''audio''),
                  (''candidate'', JStr ''candidate:0 1 UDP 2122252543 192.0.2.1 49152 typ host'')]))
     listening_handler =
     (listening_handler, [], Some TypeError) \<and>
   snd (run example_browser
          [Listen,
           ChannelMessage (Some ''room'')
             (Text (JObj [(''type'', JStr ''answer''), (''sdp'', JStr ''v=0'')]))]
          (fst (WebRTC example_config))) =
     [Chan_subscribe 1 (Some ''room''),
      GetUserMedia (media_constraints_' (WebRtcHandler example_config)),
      Uncaught TypeError]"
proof -
  have answer: "onChannelMessage (Some ''room'')
     (Text (JObj [(''type'', JStr ''answer''), (''sdp'', JStr ''v=0'')])) listening_handler =
     (listening_handler, [], Some TypeError)"
    by (rule message_without_link [where v = "JObj [(''type'', JStr ''answer''), (''sdp'', JStr ''v=0'')]"])
       (simp_all add: listening_handler_fields JSON_parse_def)
  have candidate: "onChannelMessage (Some ''room'')
     (Text (JObj [(''type'', JStr ''candidate''), (''label'', JNum 0), (''id'', JStr ''audio''),
                  (''candidate'', JStr ''candidate:0 1 UDP 2122252543 192.0.2.1 49152 typ host'')]))
     listening_handler =
     (listening_handler, [], Some TypeError)"
    by (rule message_without_link
          [where v = "JObj [(''type'', JStr ''candidate''), (''label'', JNum 0), (''id'', JStr ''audio''),
                  (''candidate'', JStr ''candidate:0 1 UDP 2122252543 192.0.2.1 49152 typ host'')]"])
       (simp_all add: listening_handler_fields JSON_parse_def)
  have trace: "snd (run example_browser
          [Listen,
           ChannelMessage (Some ''room'')
             (Text (JObj [(''type'', JStr ''answer''), (''sdp'', JStr ''v=0'')]))]
          (fst (WebRTC example_config))) =
     [Chan_subscribe 1 (Some ''room''),
      GetUserMedia (media_constraints_' (WebRtcHandler example_config)),
      Uncaught TypeError]"
    by (simp add: eval_defs)
  from answer candidate trace show ?thesis
    by (simp only: listening_handler_fields simp_thms)
qed

section \<open>Messages the handler does not know\<close>

text \<open>
  C5, as the code has it. A message that parses to a value other than \<^verbatim>\<open>null\<close> and whose
  \<^verbatim>\<open>type\<close> is none of \<^verbatim>\<open>"offer"\<close>, \<^verbatim>\<open>"answer"\<close>, \<^verbatim>\<open>"candidate"\<close> and \<^verbatim>\<open>"bye"\<close> (or is
  missing) is ignored: the handler is unchanged, no collaborator is called, so the error
  policy is not, and nothing is thrown. A message that does not parse also leaves the
  handler unchanged and calls nothing, the error policy included, but
  \<^verbatim>\<open>onChannelMessage\<close> does not catch what \<^verbatim>\<open>JSON.parse\<close> throws.
\<close>

theorem unknown_message_ignored_unparseable_uncaught:
  "(JSON_parse message = Inr v \<and> v \<noteq> JNull \<and>
      own_member v ''type'' \<noteq> Some (JStr ''offer'') \<and>
      own_member v ''type'' \<noteq> Some (JStr ''answer'') \<and>
      own_member v ''type'' \<noteq> Some (JStr ''candidate'') \<and>
      own_member v ''type'' \<noteq> Some (JStr ''bye'')
      \<longrightarrow> onChannelMessage topic message this = (this, [], None)) \<and>
   (JSON_parse message = Inl e \<longrightarrow> onChannelMessage topic message this = (this, [], Some e))"
  by (simp add: onChannelMessage_def get_member_def stmt_defs)

theorem unknown_message_ignored_unparseable_uncaught_witness:
  "onChannelMessage (Some ''room'') (Text (JObj [(''type'', JStr ''ping'')])) in_call_handler =
     (in_call_handler, [], None) \<and>
   onChannelMessage (Some ''room'') (Text (JArr [JNum 1, JNum 2])) in_call_handler =
     (in_call_handler, [], None) \<and>
   onChannelMessage (Some ''room'') Malformed in_call_handler =
     (in_call_handler, [], Some SyntaxError)"
proof -
  have ping: "JSON_parse (Text (JObj [(''type'', JStr ''ping'')])) = Inr (JObj [(''type'', JStr ''ping'')])"
    and list: "JSON_parse (Text (JArr [JNum 1, JNum 2])) = Inr (JArr [JNum 1, JNum 2])"
    and bad: "JSON_parse Malformed = Inl SyntaxError"
    by (simp_all add: JSON_parse_def)
  from unknown_message_ignored_unparseable_uncaught
         [of "Text (JObj [(''type'', JStr ''ping'')])" "JObj [(''type'', JStr ''ping'')]"
             "Some ''room''" in_call_handler]
       unknown_message_ignored_unparseable_uncaught
         [of "Text (JArr [JNum 1, JNum 2])" "JArr [JNum 1, JNum 2]" "Some ''room''" in_call_handler]
       unknown_message_ignored_unparseable_uncaught
         [of Malformed _ "Some ''room''" in_call_handler SyntaxError]
       ping list bad
  show ?thesis by simp
qed

theorem unparseable_message_counterexample:
  "snd (snd (onChannelMessage (Some ''room'') Malformed in_call_handler)) = Some SyntaxError \<and>
   snd (snd (onChannelMessage (Some ''room'') (Text JNull) in_call_handler)) = Some TypeError"
  by (simp add: onChannelMessage_def JSON_parse_def get_member_def throw_def)

section \<open>Merging constraint objects\<close>

lemma members_set_prototype: "members (set_prototype v ob) = members ob"
  by (cases v) simp_all

lemma put_member:
  "k \<noteq> ''__proto__'' \<Longrightarrow>
   map_of (members (put name v ob)) k = (if k = name then Some v else map_of (members ob) k)"
  by (simp add: put_def members_set_prototype AList.update_conv')

lemma put_other_name:
  assumes "name \<noteq> ''__proto__''"
  shows "proto (put name v ob) = proto ob"
    and "map_of (members (put name v ob)) ''__proto__'' = map_of (members ob) ''__proto__''"
  using assms by (simp_all add: put_def AList.update_conv')

lemma for_in_mandatory_result:
  assumes "H merged = Some m" and "mandatory m = Some target"
  shows "for_in_mandatory names source merged H =
           (H(merged \<mapsto> m\<lparr>mandatory := Some (put_all names source target)\<rparr>), None)"
  using assms
proof (induction names arbitrary: H m target)
  case Nil
  then have "H(merged \<mapsto> m\<lparr>mandatory := Some target\<rparr>) = H"
    by (auto simp: fun_eq_iff)
  then show ?case by simp
next
  case (Cons name names)
  show ?case
  proof (cases "map_of source name")
    case None
    with Cons.prems Cons.IH [where H = H and m = m and target = target, OF Cons.prems]
    show ?thesis by simp
  next
    case (Some v)
    let ?m = "m\<lparr>mandatory := Some (put name v target)\<rparr>"
    let ?H = "H(merged \<mapsto> ?m)"
    have "?H merged = Some ?m" and "mandatory ?m = Some (put name v target)"
      by simp_all
    from Cons.IH [where H = ?H and m = ?m and target = "put name v target", OF this]
    have "for_in_mandatory names source merged ?H =
            (?H(merged \<mapsto> ?m\<lparr>mandatory := Some (put_all names source (put name v target))\<rparr>),
             None)" .
    moreover
    have "?H(merged \<mapsto> ?m\<lparr>mandatory := Some (put_all names source (put name v target))\<rparr>) =
          H(merged \<mapsto> m\<lparr>mandatory := Some (put_all names source (put name v target))\<rparr>)"
      by simp
    ultimately
    have "for_in_mandatory names source merged ?H =
            (H(merged \<mapsto> m\<lparr>mandatory := Some (put_all names source (put name v target))\<rparr>), None)"
      by (simp only:)
    with Some Cons.prems show ?thesis by (simp add: fun_eq_iff)
  qed
qed

lemma put_all_member:
  "k \<noteq> ''__proto__'' \<Longrightarrow>
   map_of (members (put_all names source target)) k =
     (if k \<in> set names \<and> map_of source k \<noteq> None then map_of source k
      else map_of (members target) k)"
proof (induction names arbitrary: target)
  case Nil
  show ?case by simp
next
  case (Cons name names)
  show ?case
  proof (cases "map_of source name")
    case None
    with Cons.IH [OF Cons.prems, of target] show ?thesis
      by (cases "k = name") simp_all
  next
    case (Some v)
    with Cons.IH [OF Cons.prems, of "put name v target"] Cons.prems show ?thesis
      by (cases "k = name") (auto simp: put_member)
  qed
qed

lemma put_all_without_proto:
  "''__proto__'' \<notin> set names \<Longrightarrow>
   proto (put_all names source target) = proto target \<and>
   map_of (members (put_all names source target)) ''__proto__'' =
     map_of (members target) ''__proto__''"
proof (induction names arbitrary: target)
  case Nil
  show ?case by simp
next
  case (Cons name names)
  then have other: "name \<noteq> ''__proto__''" and rest: "''__proto__'' \<notin> set names"
    by auto
  show ?case
  proof (cases "map_of source name")
    case None
    with Cons.IH [OF rest, of target] show ?thesis by simp
  next
    case (Some v)
    with Cons.IH [OF rest, of "put name v target"] show ?thesis
      by (simp add: put_other_name [OF other])
  qed
qed

lemma mergeConstraints_result:
  assumes "H constraints_1 = Some A" and "mandatory A = Some ma" and "H constraints_2 = Some B"
    and "source = (case mandatory B of None \<Rightarrow> [] | Some mb \<Rightarrow> enumerable mb)"
  shows "mergeConstraints constraints_1 constraints_2 H =
           (H(constraints_1 \<mapsto> A\<lparr>mandatory := Some (put_all (map fst source) source ma)\<rparr>),
            if optional A = None then Inl TypeError else Inr constraints_1)"
proof -
  note loop = for_in_mandatory_result
         [where H = H and merged = constraints_1 and m = A and target = ma
            and names = "map fst source" and source = source, OF assms(1,2)]
  show ?thesis
  proof (cases "optional A")
    case None
    with loop assms(3,4) show ?thesis
      by (simp add: mergeConstraints_def Let_def)
  next
    case (Some oa)
    with loop assms(3,4) show ?thesis
      by (simp add: mergeConstraints_def Let_def)
  qed
qed

lemma merged_members:
  assumes "k \<noteq> ''__proto__''"
  shows "map_of (members (put_all (map fst source) source ma)) k =
           (if map_of source k \<noteq> None then map_of source k else map_of (members ma) k)"
proof (cases "map_of source k")
  case None
  with put_all_member [OF assms, of "map fst source" source ma] show ?thesis by simp
next
  case (Some v)
  then have "k \<in> set (map fst source)"
    by (auto dest: map_of_SomeD intro: rev_image_eqI)
  with Some put_all_member [OF assms, of "map fst source" source ma] show ?thesis by simp
qed

lemma merged_without_proto:
  assumes "map_of source ''__proto__'' = None"
  shows "proto (put_all (map fst source) source ma) = proto ma"
    and "map_of (members (put_all (map fst source) source ma)) ''__proto__'' =
           map_of (members ma) ''__proto__''"
proof -
  from assms have "''__proto__'' \<notin> set (map fst source)"
    by (simp add: map_of_eq_None_iff)
  from put_all_without_proto [OF this, of source ma]
  show "proto (put_all (map fst source) source ma) = proto ma"
    and "map_of (members (put_all (map fst source) source ma)) ''__proto__'' =
           map_of (members ma) ''__proto__''"
    by simp_all
qed

text \<open>
  C6, as the code has it. When the first object has both a \<^verbatim>\<open>mandatory\<close> object and an
  \<^verbatim>\<open>optional\<close> list, \<^verbatim>\<open>mergeConstraints(A, B)\<close> returns (the address of) an object in
  whose \<^verbatim>\<open>mandatory\<close> every name that \<^verbatim>\<open>for ... in\<close> enumerates in B's \<^verbatim>\<open>mandatory\<close>, other
  than \<^verbatim>\<open>__proto__\<close>, is an own member with B's value, and every name not enumerated there
  is a member as it was in A's, or as before no member. The prototype is A's unless B's
  \<^verbatim>\<open>mandatory\<close> has a \<^verbatim>\<open>__proto__\<close>. The \<^verbatim>\<open>optional\<close> list is A's, as it was: nothing of B's
  \<^verbatim>\<open>optional\<close> is added to it. A B without \<^verbatim>\<open>mandatory\<close> contributes no member.
\<close>

theorem mergeConstraints_takes_mandatory_keeps_optional:
  assumes "H constraints_1 = Some A" and "mandatory A = Some ma" and "optional A = Some oa"
    and "H constraints_2 = Some B"
  shows "\<exists>H' A' ma'.
           mergeConstraints constraints_1 constraints_2 H = (H', Inr constraints_1) \<and>
           H' constraints_1 = Some A' \<and> mandatory A' = Some ma' \<and>
           (\<forall>name v. name \<noteq> ''__proto__'' \<and>
                     map_of (case mandatory B of None \<Rightarrow> [] | Some mb \<Rightarrow> enumerable mb) name =
                       Some v \<longrightarrow>
                     map_of (members ma') name = Some v) \<and>
           (\<forall>name. map_of (case mandatory B of None \<Rightarrow> [] | Some mb \<Rightarrow> enumerable mb) name =
                     None \<longrightarrow>
                   map_of (members ma') name = map_of (members ma) name) \<and>
           (map_of (case mandatory B of None \<Rightarrow> [] | Some mb \<Rightarrow> enumerable mb) ''__proto__'' =
              None \<longrightarrow>
            proto ma' = proto ma) \<and>
           optional A' = Some oa"
proof -
  let ?source = "case mandatory B of None \<Rightarrow> [] | Some mb \<Rightarrow> enumerable mb"
  let ?ma' = "put_all (map fst ?source) ?source ma"
  let ?A' = "A\<lparr>mandatory := Some ?ma'\<rparr>"
  let ?H' = "H(constraints_1 \<mapsto> ?A')"
  from mergeConstraints_result [OF assms(1,2,4) refl] assms(3)
  have merged: "mergeConstraints constraints_1 constraints_2 H = (?H', Inr constraints_1)"
    by simp
  have stored: "?H' constraints_1 = Some ?A'" and mandatory: "mandatory ?A' = Some ?ma'"
    and optional: "optional ?A' = Some oa"
    using assms(3) by simp_all
  have taken: "\<forall>name v. name \<noteq> ''__proto__'' \<and> map_of ?source name = Some v \<longrightarrow>
                 map_of (members ?ma') name = Some v"
    by (simp add: merged_members)
  have kept: "\<forall>name. map_of ?source name = None \<longrightarrow>
                 map_of (members ?ma') name = map_of (members ma) name"
  proof (intro allI impI)
    fix name
    assume none: "map_of ?source name = None"
    show "map_of (members ?ma') name = map_of (members ma) name"
    proof (cases "name = ''__proto__''")
      case True
      with none merged_without_proto(2) [of ?source ma] show ?thesis by simp
    next
      case False
      with none merged_members [OF False, of ?source ma] show ?thesis by simp
    qed
  qed
  have same: "map_of ?source ''__proto__'' = None \<longrightarrow> proto ?ma' = proto ma"
    by (simp add: merged_without_proto(1))
  show ?thesis
    by (rule exI [of _ ?H'], rule exI [of _ ?A'], rule exI [of _ ?ma'], intro conjI)
       (rule merged, rule stored, rule mandatory, rule taken, rule kept, rule same, rule optional)
qed

lemma example_heap_objects:
  "example_heap 0 =
     Some \<lparr>mandatory =
             Some (plain_object
                    [(''OfferToReceiveAudio'', JBool False), (''IceRestart'', JBool True)]),
           optional = Some [JObj [(''DtlsSrtpKeyAgreement'', JBool True)]]\<rparr>"
  "example_heap 1 =
     Some \<lparr>mandatory =
             Some (plain_object
                    [(''OfferToReceiveAudio'', JBool True), (''OfferToReceiveVideo'', JBool True)]),
           optional = Some [JObj [(''RtpDataChannels'', JBool True)]]\<rparr>"
  by (simp_all add: example_heap_def)

theorem mergeConstraints_takes_mandatory_keeps_optional_witness:
  "\<exists>H' A' ma'.
     mergeConstraints 0 1 example_heap = (H', Inr 0) \<and>
     H' 0 = Some A' \<and> mandatory A' = Some ma' \<and>
     map_of (members ma') ''OfferToReceiveAudio'' = Some (JBool True) \<and>
     map_of (members ma') ''OfferToReceiveVideo'' = Some (JBool True) \<and>
     map_of (members ma') ''IceRestart'' = Some (JBool True) \<and>
     map_of (members ma') ''maxWidth'' = None \<and>
     map_of (members ma') ''__proto__'' = None \<and>
     proto ma' = Object_prototype \<and>
     optional A' = Some [JObj [(''DtlsSrtpKeyAgreement'', JBool True)]]"
proof -
  let ?a = "plain_object [(''OfferToReceiveAudio'', JBool False), (''IceRestart'', JBool True)]"
  let ?b = "plain_object [(''OfferToReceiveAudio'', JBool True), (''OfferToReceiveVideo'', JBool True)]"
  let ?A = "\<lparr>mandatory = Some ?a, optional = Some [JObj [(''DtlsSrtpKeyAgreement'', JBool True)]]\<rparr>"
  let ?B = "\<lparr>mandatory = Some ?b, optional = Some [JObj [(''RtpDataChannels'', JBool True)]]\<rparr>"
  let ?source = "case mandatory ?B of None \<Rightarrow> [] | Some mb \<Rightarrow> enumerable mb"
  have A: "mandatory ?A = Some ?a"
    and oa: "optional ?A = Some [JObj [(''DtlsSrtpKeyAgreement'', JBool True)]]"
    by simp_all
  from mergeConstraints_takes_mandatory_keeps_optional
         [OF example_heap_objects(1) A oa example_heap_objects(2)]
  obtain H' A' ma' where
    merged: "mergeConstraints 0 1 example_heap = (H', Inr 0)"
    and stored: "H' 0 = Some A'" and mandatory: "mandatory A' = Some ma'"
    and taken: "\<forall>name v. name \<noteq> ''__proto__'' \<and> map_of ?source name = Some v \<longrightarrow>
                  map_of (members ma') name = Some v"
    and kept: "\<forall>name. map_of ?source name = None \<longrightarrow>
                  map_of (members ma') name = map_of (members ?a) name"
    and same: "map_of ?source ''__proto__'' = None \<longrightarrow> proto ma' = proto ?a"
    and optional: "optional A' = Some [JObj [(''DtlsSrtpKeyAgreement'', JBool True)]]"
    by (elim exE conjE)
  from taken [rule_format, of "''OfferToReceiveAudio''" "JBool True"]
  have audio: "map_of (members ma') ''OfferToReceiveAudio'' = Some (JBool True)"
    by (simp add: enumerable_def plain_object_def)
  from taken [rule_format, of "''OfferToReceiveVideo''" "JBool True"]
  have video: "map_of (members ma') ''OfferToReceiveVideo'' = Some (JBool True)"
    by (simp add: enumerable_def plain_object_def)
  from kept [rule_format, of "''IceRestart''"]
  have ice: "map_of (members ma') ''IceRestart'' = Some (JBool True)"
    by (simp add: enumerable_def plain_object_def)
  from kept [rule_format, of "''maxWidth''"]
  have width: "map_of (members ma') ''maxWidth'' = None"
    by (simp add: enumerable_def plain_object_def)
  from kept [rule_format, of "''__proto__''"]
  have no_member: "map_of (members ma') ''__proto__'' = None"
    by (simp add: enumerable_def plain_object_def)
  from same have prototype: "proto ma' = Object_prototype"
    by (simp add: enumerable_def plain_object_def)
  show ?thesis
    by (rule exI [of _ H'], rule exI [of _ A'], rule exI [of _ ma'], intro conjI)
       (rule merged, rule stored, rule mandatory, rule audio, rule video, rule ice, rule width,
        rule no_member, rule prototype, rule optional)
qed

theorem mergeConstraints_counterexample:
  "heap (WebRtcHandler example_config) (p2p_constraints_' (WebRtcHandler example_config)) =
     Some \<lparr>mandatory = None, optional = Some [JObj [(''DtlsSrtpKeyAgreement'', JBool True)]]\<rparr> \<and>
   snd (mergeConstraints (p2p_constraints_' (WebRtcHandler example_config))
          (sdp_constraints_' (WebRtcHandler example_config)) (heap (WebRtcHandler example_config))) =
     Inl TypeError \<and>
   map_option mandatory (example_heap 2) =
     Some (Some \<lparr>members = [(''__proto__'', JBool True), (''OfferToReceiveVideo'', JBool False)],
                 proto = Object_prototype\<rparr>) \<and>
   snd (mergeConstraints 0 2 example_heap) = Inr 0 \<and>
   map_option mandatory (fst (mergeConstraints 0 2 example_heap) 0) =
     Some (Some \<lparr>members = [(''OfferToReceiveAudio'', JBool False), (''IceRestart'', JBool True),
                            (''OfferToReceiveVideo'', JBool False)],
                 proto = Object_prototype\<rparr>) \<and>
   snd (mergeConstraints 1 1 example_heap) = Inr 1 \<and>
   map_option optional (fst (mergeConstraints 1 1 example_heap) 1) =
     Some (Some [JObj [(''RtpDataChannels'', JBool True)]])"
  by (simp add: mergeConstraints_def WebRtcHandler_def example_config_def webRtcDefaultConfig_def
        example_heap_def plain_object_def enumerable_def put_def Let_def)

section \<open>The offer constraints after a call\<close>

text \<open>
  C10, as the code has it. When A has a \<^verbatim>\<open>mandatory\<close> object, \<^verbatim>\<open>mergeConstraints(A, B)\<close>
  leaves a store that differs from the one before the call at A's address only: the object
  there is A with, in its \<^verbatim>\<open>mandatory\<close>, every name enumerated in B's \<^verbatim>\<open>mandatory\<close>, other
  than \<^verbatim>\<open>__proto__\<close>, as an own member with B's value. There is no copy: the call returns the
  address it was given for A, when A has an \<^verbatim>\<open>optional\<close> list, and throws a \<^verbatim>\<open>TypeError\<close>,
  after it has written, when A has none. \<^verbatim>\<open>doCall()\<close> passes the handler's
  \<open>offer_constraints_'\<close> and \<open>sdp_constraints_'\<close>, so after it (also when it throws, for
  want of an \<^verbatim>\<open>optional\<close> list or of a peer connection) the object that the handler's
  \<open>offer_constraints_'\<close> still points to holds the members of \<open>sdp_constraints_'\<close>, and
  \<^verbatim>\<open>createOffer\<close> is given that same object.
\<close>

theorem mergeConstraints_writes_first_argument:
  assumes "H constraints_1 = Some A" and "mandatory A = Some ma"
    and "H constraints_2 = Some B"
  shows "\<exists>ma'.
           mergeConstraints constraints_1 constraints_2 H =
             (H(constraints_1 \<mapsto> A\<lparr>mandatory := Some ma'\<rparr>),
              if optional A = None then Inl TypeError else Inr constraints_1) \<and>
           (\<forall>name v. name \<noteq> ''__proto__'' \<and>
                     map_of (case mandatory B of None \<Rightarrow> [] | Some mb \<Rightarrow> enumerable mb) name =
                       Some v \<longrightarrow>
                     map_of (members ma') name = Some v) \<and>
           (\<forall>this. heap this = H \<and> offer_constraints_' this = constraints_1 \<and>
                   sdp_constraints_' this = constraints_2 \<longrightarrow>
                   heap (fst (doCall this)) = H(constraints_1 \<mapsto> A\<lparr>mandatory := Some ma'\<rparr>) \<and>
                   offer_constraints_' (fst (doCall this)) = constraints_1 \<and>
                   snd (doCall this) =
                     (if optional A = None then ([], Some TypeError)
                      else case p2p_connection_' this of
                             None \<Rightarrow> ([], Some TypeError)
                           | Some c \<Rightarrow> ([PC_createOffer c constraints_1], None)))"
proof -
  let ?source = "case mandatory B of None \<Rightarrow> [] | Some mb \<Rightarrow> enumerable mb"
  let ?ma' = "put_all (map fst ?source) ?source ma"
  let ?H' = "H(constraints_1 \<mapsto> A\<lparr>mandatory := Some ?ma'\<rparr>)"
  from mergeConstraints_result [OF assms(1,2,3) refl]
  have merged: "mergeConstraints constraints_1 constraints_2 H =
                  (?H', if optional A = None then Inl TypeError else Inr constraints_1)" .
  have taken: "\<forall>name v. name \<noteq> ''__proto__'' \<and> map_of ?source name = Some v \<longrightarrow>
                 map_of (members ?ma') name = Some v"
    by (simp add: merged_members)
  have called: "\<forall>this. heap this = H \<and> offer_constraints_' this = constraints_1 \<and>
                   sdp_constraints_' this = constraints_2 \<longrightarrow>
                   heap (fst (doCall this)) = ?H' \<and>
                   offer_constraints_' (fst (doCall this)) = constraints_1 \<and>
                   snd (doCall this) =
                     (if optional A = None then ([], Some TypeError)
                      else case p2p_connection_' this of
                             None \<Rightarrow> ([], Some TypeError)
                           | Some c \<Rightarrow> ([PC_createOffer c constraints_1], None))"
  proof (intro allI impI, elim conjE)
    fix this :: WebRtcHandler
    assume "heap this = H" and "offer_constraints_' this = constraints_1"
      and "sdp_constraints_' this = constraints_2"
    then have "mergeConstraints (offer_constraints_' this) (sdp_constraints_' this) (heap this) =
                 (?H', if optional A = None then Inl TypeError else Inr constraints_1)"
      using merged by simp
    then show "heap (fst (doCall this)) = ?H' \<and>
               offer_constraints_' (fst (doCall this)) = constraints_1 \<and>
               snd (doCall this) =
                 (if optional A = None then ([], Some TypeError)
                  else case p2p_connection_' this of
                         None \<Rightarrow> ([], Some TypeError)
                       | Some c \<Rightarrow> ([PC_createOffer c constraints_1], None))"
      using \<open>offer_constraints_' this = constraints_1\<close>
      by (cases "optional A"; cases "p2p_connection_' this")
         (simp_all add: doCall_def on_connection_def stmt_defs)
  qed
  show ?thesis
    by (rule exI [of _ ?ma'], intro conjI) (rule merged, rule taken, rule called)
qed

lemma constructed_heap:
  "heap (WebRtcHandler config) (offer_constraints_' (WebRtcHandler config)) =
     Some \<lparr>mandatory = Some (plain_object []), optional = Some []\<rparr>"
  "heap (WebRtcHandler config) (sdp_constraints_' (WebRtcHandler config)) =
     Some \<lparr>mandatory =
             Some (plain_object
                    [(''OfferToReceiveAudio'', JBool (enable_audio config)),
                     (''OfferToReceiveVideo'', JBool True)]),
           optional = None\<rparr>"
  by (simp_all add: WebRtcHandler_def)

theorem mergeConstraints_writes_first_argument_witness:
  "heap (WebRtcHandler example_config) (offer_constraints_' (WebRtcHandler example_config)) =
     Some \<lparr>mandatory = Some \<lparr>members = [], proto = Object_prototype\<rparr>, optional = Some []\<rparr> \<and>
   (\<exists>ma'. heap (fst (doCall (WebRtcHandler example_config))) =
             (heap (WebRtcHandler example_config))
               (offer_constraints_' (WebRtcHandler example_config) \<mapsto>
                  \<lparr>mandatory = Some ma', optional = Some []\<rparr>) \<and>
          map_of (members ma') ''OfferToReceiveAudio'' = Some (JBool True) \<and>
          map_of (members ma') ''OfferToReceiveVideo'' = Some (JBool True)) \<and>
   offer_constraints_' (fst (doCall (WebRtcHandler example_config))) =
     offer_constraints_' (WebRtcHandler example_config) \<and>
   snd (doCall (WebRtcHandler example_config)) = ([], Some TypeError) \<and>
   heap in_call_handler (offer_constraints_' in_call_handler) =
     Some \<lparr>mandatory =
             Some \<lparr>members = [(''OfferToReceiveAudio'', JBool True),
                              (''OfferToReceiveVideo'', JBool True)],
                   proto = Object_prototype\<rparr>,
           optional = Some []\<rparr> \<and>
   heap (fst (doCall in_call_handler)) (offer_constraints_' in_call_handler) =
     Some \<lparr>mandatory =
             Some \<lparr>members = [(''OfferToReceiveAudio'', JBool True),
                              (''OfferToReceiveVideo'', JBool True)],
                   proto = Object_prototype\<rparr>,
           optional = Some []\<rparr> \<and>
   snd (doCall in_call_handler) = ([PC_createOffer 20 (offer_constraints_' in_call_handler)], None)"
proof -
  let ?h = "WebRtcHandler example_config"
  let ?A = "\<lparr>mandatory = Some (plain_object []), optional = Some []\<rparr>"
  let ?b = "plain_object [(''OfferToReceiveAudio'', JBool (enable_audio example_config)),
                          (''OfferToReceiveVideo'', JBool True)]"
  let ?B = "\<lparr>mandatory = Some ?b, optional = None\<rparr>"
  let ?source = "case mandatory ?B of None \<Rightarrow> [] | Some mb \<Rightarrow> enumerable mb"
  have audio: "enable_audio example_config"
    by (simp add: example_config_def webRtcDefaultConfig_def)
  have no_connection: "p2p_connection_' ?h = None"
    by (simp add: WebRtcHandler_def)
  have A: "mandatory ?A = Some (plain_object [])"
    by simp
  from mergeConstraints_writes_first_argument 
         [OF constructed_heap(1) [of example_config] A constructed_heap(2) [of example_config]]
  obtain ma' where
    taken: "\<forall>name v. name \<noteq> ''__proto__'' \<and> map_of ?source name = Some v \<longrightarrow>
              map_of (members ma') name = Some v"
    and called: "\<forall>this. heap this = heap ?h \<and> offer_constraints_' this = offer_constraints_' ?h \<and>
                   sdp_constraints_' this = sdp_constraints_' ?h \<longrightarrow>
                   heap (fst (doCall this)) =
                     (heap ?h)(offer_constraints_' ?h \<mapsto> ?A\<lparr>mandatory := Some ma'\<rparr>) \<and>
                   offer_constraints_' (fst (doCall this)) = offer_constraints_' ?h \<and>
                   snd (doCall this) =
                     (if optional ?A = None then ([], Some TypeError)
                      else case p2p_connection_' this of
                             None \<Rightarrow> ([], Some TypeError)
                           | Some c \<Rightarrow> ([PC_createOffer c (offer_constraints_' ?h)], None))"
    by (elim exE conjE)
  from called [rule_format, of ?h] no_connection
  have first: "heap (fst (doCall ?h)) =
                 (heap ?h)(offer_constraints_' ?h \<mapsto> \<lparr>mandatory = Some ma', optional = Some []\<rparr>)"
    and same: "offer_constraints_' (fst (doCall ?h)) = offer_constraints_' ?h"
    and thrown: "snd (doCall ?h) = ([], Some TypeError)"
    by simp_all
  from taken [rule_format, of "''OfferToReceiveAudio''" "JBool True"] audio
  have "map_of (members ma') ''OfferToReceiveAudio'' = Some (JBool True)"
    by (simp add: enumerable_def plain_object_def)
  moreover from taken [rule_format, of "''OfferToReceiveVideo''" "JBool True"]
  have "map_of (members ma') ''OfferToReceiveVideo'' = Some (JBool True)"
    by (simp add: enumerable_def plain_object_def)
  ultimately have extended: "\<exists>ma'. heap (fst (doCall ?h)) =
             (heap ?h)(offer_constraints_' ?h \<mapsto> \<lparr>mandatory = Some ma', optional = Some []\<rparr>) \<and>
          map_of (members ma') ''OfferToReceiveAudio'' = Some (JBool True) \<and>
          map_of (members ma') ''OfferToReceiveVideo'' = Some (JBool True)"
    using first by (intro exI [of _ ma'] conjI)
  have constructed: "heap ?h (offer_constraints_' ?h) =
     Some \<lparr>mandatory = Some \<lparr>members = [], proto = Object_prototype\<rparr>, optional = Some []\<rparr>"
    using constructed_heap(1) [of example_config] by (simp add: plain_object_def)
  have stored: "heap in_call_handler (offer_constraints_' in_call_handler) =
     Some \<lparr>mandatory =
             Some \<lparr>members = [(''OfferToReceiveAudio'', JBool True),
                              (''OfferToReceiveVideo'', JBool True)],
                   proto = Object_prototype\<rparr>,
           optional = Some []\<rparr>"
    by (simp add: in_call_handler_def eval_defs)
  have again: "heap (fst (doCall in_call_handler)) (offer_constraints_' in_call_handler) =
     Some \<lparr>mandatory =
             Some \<lparr>members = [(''OfferToReceiveAudio'', JBool True),
                              (''OfferToReceiveVideo'', JBool True)],
                   proto = Object_prototype\<rparr>,
           optional = Some []\<rparr>"
    and offered: "snd (doCall in_call_handler) =
                    ([PC_createOffer 20 (offer_constraints_' in_call_handler)], None)"
    by (simp_all add: in_call_handler_def eval_defs)
  show ?thesis
    by (intro conjI) (rule constructed, rule extended, rule same, rule thrown, rule stored,
                      rule again, rule offered)
qed

theorem mergeConstraints_writes_then_throws_counterexample:
  "example_heap 3 =
     Some \<lparr>mandatory = Some \<lparr>members = [(''IceRestart'', JBool True)], proto = Object_prototype\<rparr>,
           optional = None\<rparr> \<and>
   snd (mergeConstraints 3 1 example_heap) = Inl TypeError \<and>
   fst (mergeConstraints 3 1 example_heap) 3 =
     Some \<lparr>mandatory =
             Some \<lparr>members = [(''IceRestart'', JBool True), (''OfferToReceiveAudio'', JBool True),
                              (''OfferToReceiveVideo'', JBool True)],
                   proto = Object_prototype\<rparr>,
           optional = None\<rparr> \<and>
   map_option mandatory (example_heap 2) =
     Some (Some \<lparr>members = [(''__proto__'', JBool True), (''OfferToReceiveVideo'', JBool False)],
                 proto = Object_prototype\<rparr>) \<and>
   snd (mergeConstraints 1 2 example_heap) = Inr 1 \<and>
   map_option mandatory (fst (mergeConstraints 1 2 example_heap) 1) =
     Some (Some \<lparr>members = [(''OfferToReceiveAudio'', JBool True),
                            (''OfferToReceiveVideo'', JBool False)],
                 proto = Object_prototype\<rparr>)"
  by (simp add: mergeConstraints_def example_heap_def plain_object_def enumerable_def put_def
        Let_def)

end
